(* ===== verification/Prelude.thy ===== *)
theory Prelude
  imports Main "HOL-Library.Word" "HOL-Library.Sublist"
begin

text \<open>
  Shared vocabulary of the development. JavaScript strings are sequences of UTF-16
  code units, so a string of the program is a list of \<open>16 word\<close>s (\<open>jsstr\<close>), and a
  string literal of the source is written \<open>js ''...''\<close> (an ASCII literal read code
  unit by code unit). The exceptions the program can raise are the values of
  \<open>js_error\<close>. The generic lemmas on lists, subsequences and contiguous sublists that
  the component theories share are collected here; \<open>js_lit\<close> is the collection of
  facts that evaluate literals.
\<close>

type_synonym code_unit = "16 word"
type_synonym jsstr = "code_unit list"

named_theorems js_lit "facts that evaluate JavaScript string literals to code units"

definition js :: "string \<Rightarrow> jsstr" where
  "js s = map (\<lambda>c. of_nat (of_char c)) s"

declare js_def [js_lit]

text \<open>The exceptions of the ECMAScript and DOM operations the program calls.\<close>

datatype js_error =
    TypeError       \<comment> \<open>calling something that is not a function\<close>
  | SecurityError   \<comment> \<open>touching \<open>localStorage\<close> where the browser forbids it\<close>
  | URIError        \<comment> \<open>\<open>encodeURIComponent\<close> on a lone surrogate\<close>

subsection \<open>Contiguous sublists\<close>

text \<open>
  A contiguous occurrence of \<open>v\<close> in \<open>s\<close> is a start index \<open>k\<close>: the characterisation
  of \<open>sublist\<close> by indices that the string search of \<open>JsString\<close> is proved against.
\<close>

definition occurs_at :: "'a list \<Rightarrow> 'a list \<Rightarrow> nat \<Rightarrow> bool" where
  "occurs_at s v k \<longleftrightarrow> k + length v \<le> length s \<and> take (length v) (drop k s) = v"

subsection \<open>Lemmas: literals\<close>

lemma js_Nil [simp]: "js [] = []"
  by (simp add: js_def)

lemma js_Cons: "js (c # s) = of_nat (of_char c) # js s"
  by (simp add: js_def)

lemma js_append [simp]: "js (s @ t) = js s @ js t"
  by (simp add: js_def)

lemma length_js [simp]: "length (js s) = length s"
  by (simp add: js_def)

lemma unat_of_char_unit [simp]: "unat (of_nat (of_char c) :: code_unit) = of_char c"
proof -
  have "(of_char c :: nat) < 65536"
    using nat_of_char_less_256 [of c] by linarith
  then show ?thesis
    by (simp add: unat_of_nat)
qed

lemma js_unit_inj: "(of_nat (of_char c) :: code_unit) = of_nat (of_char d) \<longleftrightarrow> c = d"
  by (metis unat_of_char_unit of_char_eq_iff)

lemma js_eq_iff [simp]: "js s = js t \<longleftrightarrow> s = t"
proof
  assume "js s = js t"
  then show "s = t"
  proof (induction s arbitrary: t)
    case Nil
    then show ?case by (simp add: js_def)
  next
    case (Cons c s)
    then show ?case by (cases t) (auto simp: js_Cons js_unit_inj)
  qed
qed simp

lemma take_js [simp]: "take n (js s) = js (take n s)"
  by (simp add: js_def take_map)

lemma drop_js [simp]: "drop n (js s) = js (drop n s)"
  by (simp add: js_def drop_map)

lemma js_in_map_js [simp]: "js s \<in> set (map js l) \<longleftrightarrow> s \<in> set l"
  by auto

subsection \<open>Lemmas: sublists and subsequences\<close>

lemma sublist_iff_occurs_at: "sublist v s \<longleftrightarrow> (\<exists>k. occurs_at s v k)"
proof
  assume "sublist v s"
  then obtain ps ss where "s = ps @ v @ ss"
    by (auto simp: sublist_def)
  then have "occurs_at s v (length ps)"
    by (simp add: occurs_at_def)
  then show "\<exists>k. occurs_at s v k" ..
next
  assume "\<exists>k. occurs_at s v k"
  then obtain k where k: "occurs_at s v k" ..
  then have "s = take k s @ v @ drop (k + length v) s"
    by (metis occurs_at_def add.commute append_take_drop_id drop_drop)
  then show "sublist v s"
    by (metis sublist_appendI)
qed

lemma sublist_trans [trans]: "sublist u v \<Longrightarrow> sublist v w \<Longrightarrow> sublist u w"
  by (rule sublist_order.order_trans)

lemma subseq_filter_mono:
  "(\<And>x. x \<in> set xs \<Longrightarrow> P x \<Longrightarrow> Q x) \<Longrightarrow> subseq (filter P xs) (filter Q xs)"
  by (induction xs) auto

lemma filter_cong_set: "(\<And>x. x \<in> set xs \<Longrightarrow> P x = Q x) \<Longrightarrow> filter P xs = filter Q xs"
  by (rule filter_cong) auto

lemma distinct_subseq: "subseq xs ys \<Longrightarrow> distinct ys \<Longrightarrow> distinct xs"
  by (induction xs ys rule: list_emb.induct) (auto dest: list_emb_set)

end
