(* ===== verification/JsString.thy ===== *)
theory JsString
  imports Prelude
begin

text \<open>
  The ECMAScript string operations the program calls, on UTF-16 code-unit lists:
  \<open>String.prototype.toLowerCase\<close> (for the code units of Basic Latin and Latin-1),
  \<open>String.prototype.includes\<close> through the specification's \<open>StringIndexOf\<close> loop, and
  \<open>Number::toString\<close> on integral numbers. These are library functions, not code of
  the repository; they are modelled so that the filters of \<open>Filters\<close> compute what the
  browser computes. The lemmas here serve the component proofs: the search
  loop decides the contiguous-sublist relation of HOL-Library, lower-casing is idempotent
  and monotone for sublists, and decimal printing is injective.
\<close>

subsection \<open>\<open>toLowerCase\<close>\<close>

text \<open>
  The simple lower-case mapping of the Unicode database on Basic Latin and Latin-1:
  \<open>A\<close>--\<open>Z\<close> and \<open>\<Agrave>\<close>--\<open>\<THORN>\<close> (but the multiplication sign U+00D7) move up by 0x20;
  every other code unit of these blocks is its own lower case.
\<close>

definition lower_unit :: "code_unit \<Rightarrow> code_unit" where
  "lower_unit c =
     (if (0x41 \<le> c \<and> c \<le> 0x5A) \<or> (0xC0 \<le> c \<and> c \<le> 0xDE \<and> c \<noteq> 0xD7) then c + 0x20 else c)"

definition js_toLowerCase :: "jsstr \<Rightarrow> jsstr" where
  "js_toLowerCase s = map lower_unit s"

subsection \<open>\<open>includes\<close> and \<open>StringIndexOf\<close>\<close>

text \<open>
  Step 4 of \<open>StringIndexOf\<close>: try every start \<open>i\<close> from \<open>fromIndex\<close> upward while
  \<open>i \<le> len - searchLen\<close>, and return the first where the candidate substring is the
  search value; \<open>None\<close> is the specification's \<open>not-found\<close> (-1).
\<close>

function index_of_from :: "jsstr \<Rightarrow> jsstr \<Rightarrow> nat \<Rightarrow> nat option" where
  "index_of_from s v i =
     (if length s < i + length v then None
      else if take (length v) (drop i s) = v then Some i
      else index_of_from s v (Suc i))"
  by pat_completeness auto
termination
  by (relation "measure (\<lambda>(s, v, i). Suc (length s) - i)") auto

declare index_of_from.simps [simp del]

text \<open>Steps 1--3: the empty search value is found at \<open>fromIndex\<close> when that is in range.\<close>

definition string_index_of :: "jsstr \<Rightarrow> jsstr \<Rightarrow> nat \<Rightarrow> nat option" where
  "string_index_of s v i =
     (if v = [] \<and> i \<le> length s then Some i else index_of_from s v i)"

text \<open>\<open>includes(searchString)\<close> with the default position 0.\<close>

definition js_includes :: "jsstr \<Rightarrow> jsstr \<Rightarrow> bool" where
  "js_includes s v \<longleftrightarrow> string_index_of s v 0 \<noteq> None"

subsection \<open>\<open>Number::toString\<close> on integral values\<close>

text \<open>
  For an integral number of magnitude below \<open>10\<^sup>2\<^sup>1\<close> \<open>Number::toString\<close> writes its
  decimal digits without leading zeros, preceded by \<open>-\<close> when negative. The years and
  list indices the program prints are such numbers.
\<close>

fun nat_digits :: "nat \<Rightarrow> jsstr" where
  "nat_digits n =
     (if n < 10 then [0x30 + of_nat n] else nat_digits (n div 10) @ [0x30 + of_nat (n mod 10)])"

declare nat_digits.simps [simp del]

definition js_int_to_string :: "int \<Rightarrow> jsstr" where
  "js_int_to_string k = (if k < 0 then 0x2D # nat_digits (nat (- k)) else nat_digits (nat k))"

subsection \<open>Digits\<close>

text \<open>Decimal digit code units, and the value of a digit string read most significant
  digit first: the specification-side inverse of \<open>nat_digits\<close>.\<close>

definition is_digit_unit :: "code_unit \<Rightarrow> bool" where
  "is_digit_unit c \<longleftrightarrow> 0x30 \<le> c \<and> c \<le> 0x39"

definition decimal_value :: "jsstr \<Rightarrow> nat" where
  "decimal_value ds = foldl (\<lambda>acc d. 10 * acc + (unat d - 0x30)) 0 ds"

definition is_numeral_unit :: "code_unit \<Rightarrow> bool" where
  "is_numeral_unit c \<longleftrightarrow> is_digit_unit c \<or> c = 0x2D"

subsection \<open>Lemmas: search\<close>

lemma index_of_from_None:
  "index_of_from s v i = None \<longleftrightarrow> (\<forall>k. i \<le> k \<longrightarrow> \<not> occurs_at s v k)"
proof (induction s v i rule: index_of_from.induct)
  case (1 s v i)
  show ?case
  proof (cases "length s < i + length v")
    case True
    then show ?thesis by (auto simp: index_of_from.simps occurs_at_def)
  next
    case False
    then show ?thesis
      using "1.IH" by (auto simp: index_of_from.simps [of s v i] occurs_at_def le_Suc_eq Suc_le_eq
                          dest: le_imp_less_or_eq)
  qed
qed

lemma string_index_of_None:
  "string_index_of s v i = None \<longleftrightarrow> (\<forall>k. i \<le> k \<longrightarrow> \<not> occurs_at s v k)"
  by (auto simp: string_index_of_def index_of_from_None occurs_at_def)

theorem js_includes_iff_sublist: "js_includes s v \<longleftrightarrow> sublist v s"
  by (simp add: js_includes_def string_index_of_None sublist_iff_occurs_at)

subsection \<open>Lemmas: lower case\<close>

lemma lower_unit_idem [simp]: "lower_unit (lower_unit c) = lower_unit c"
  by (auto simp: lower_unit_def word_le_nat_alt unat_add_lem [THEN iffD1] unat_word_ariths)

lemma lower_unit_digit_iff [simp]: "is_digit_unit (lower_unit c) \<longleftrightarrow> is_digit_unit c"
  by (auto simp: lower_unit_def is_digit_unit_def word_le_nat_alt unat_word_ariths)

lemma lower_unit_digit: "is_digit_unit c \<Longrightarrow> lower_unit c = c"
  by (auto simp: lower_unit_def is_digit_unit_def word_le_nat_alt)

lemma js_toLowerCase_idem [simp]: "js_toLowerCase (js_toLowerCase s) = js_toLowerCase s"
  by (simp add: js_toLowerCase_def)

lemma js_toLowerCase_append [simp]:
  "js_toLowerCase (s @ t) = js_toLowerCase s @ js_toLowerCase t"
  by (simp add: js_toLowerCase_def)

lemma js_toLowerCase_Nil [simp]: "js_toLowerCase [] = []"
  by (simp add: js_toLowerCase_def)

lemma sublist_js_toLowerCase: "sublist v s \<Longrightarrow> sublist (js_toLowerCase v) (js_toLowerCase s)"
  unfolding js_toLowerCase_def by (rule map_mono_sublist)

lemma lower_unit_numeral_iff [simp]: "is_numeral_unit (lower_unit c) \<longleftrightarrow> is_numeral_unit c"
  by (auto simp: lower_unit_def is_numeral_unit_def is_digit_unit_def word_le_nat_alt unat_word_ariths)

lemma lower_unit_numeral: "is_numeral_unit c \<Longrightarrow> lower_unit c = c"
  by (auto simp: lower_unit_def is_numeral_unit_def is_digit_unit_def word_le_nat_alt)

lemma js_toLowerCase_numeral: "list_all is_numeral_unit s \<Longrightarrow> js_toLowerCase s = s"
  by (induction s) (simp_all add: js_toLowerCase_def lower_unit_numeral)

lemma list_all_numeral_lower: "list_all is_numeral_unit (js_toLowerCase s) \<longleftrightarrow> list_all is_numeral_unit s"
  by (induction s) (simp_all add: js_toLowerCase_def)

text \<open>
  Against a string of digits and minus signs, searching for a query and for its
  lower-case form agree: such a string only holds code units that are their own
  lower case, and no other code unit lower-cases into one of them.
\<close>

lemma sublist_numeral_lower:
  assumes "list_all is_numeral_unit y"
  shows "sublist q y \<longleftrightarrow> sublist (js_toLowerCase q) y"
proof
  assume "sublist q y"
  then have "list_all is_numeral_unit q"
    using assms set_mono_sublist by (fastforce simp: list_all_iff)
  with \<open>sublist q y\<close> show "sublist (js_toLowerCase q) y"
    by (simp add: js_toLowerCase_numeral)
next
  assume "sublist (js_toLowerCase q) y"
  then have "list_all is_numeral_unit (js_toLowerCase q)"
    using assms set_mono_sublist by (fastforce simp: list_all_iff)
  then have "js_toLowerCase q = q"
    by (simp add: list_all_numeral_lower js_toLowerCase_numeral)
  with \<open>sublist (js_toLowerCase q) y\<close> show "sublist q y"
    by simp
qed

subsection \<open>Lemmas: decimal digits\<close>

lemma unat_digit_unit: "n < 10 \<Longrightarrow> unat (0x30 + of_nat n :: code_unit) = 0x30 + n"
proof -
  assume "n < 10"
  have "(0x30 + of_nat n :: code_unit) = of_nat (0x30 + n)"
    by simp
  moreover from \<open>n < 10\<close> have "0x30 + n < 2 ^ LENGTH(16)"
    by simp
  ultimately show ?thesis
    by (simp only: unat_of_nat mod_less)
qed

lemma digit_unit_is_digit: "n < 10 \<Longrightarrow> is_digit_unit (0x30 + of_nat n)"
  by (simp add: is_digit_unit_def word_le_nat_alt unat_digit_unit)

lemma nat_digits_digits: "list_all is_digit_unit (nat_digits n)"
proof (induction n rule: nat_digits.induct)
  case (1 n)
  then show ?case
    by (subst nat_digits.simps) (simp add: digit_unit_is_digit)
qed

lemma nat_digits_not_Nil [simp]: "nat_digits n \<noteq> []"
  by (subst nat_digits.simps) simp

lemma decimal_value_nat_digits [simp]: "decimal_value (nat_digits n) = n"
proof (induction n rule: nat_digits.induct)
  case (1 n)
  show ?case
  proof (cases "n < 10")
    case True
    then show ?thesis
      by (subst nat_digits.simps) (simp add: decimal_value_def unat_digit_unit)
  next
    case False
    then have "decimal_value (nat_digits n) = 10 * decimal_value (nat_digits (n div 10)) + n mod 10"
      by (subst nat_digits.simps) (simp add: decimal_value_def unat_digit_unit)
    with "1.IH" False show ?thesis
      by simp
  qed
qed

lemma js_int_to_string_numeral: "list_all is_numeral_unit (js_int_to_string k)"
  using nat_digits_digits [of "nat k"] nat_digits_digits [of "nat (- k)"]
  by (auto simp: js_int_to_string_def is_numeral_unit_def list_all_iff)

lemma nat_digits_inj: "nat_digits m = nat_digits n \<Longrightarrow> m = n"
  by (metis decimal_value_nat_digits)


end
