(* ===== verification/Theme.thy ===== *)
theory Theme
  imports JsString
begin

text \<open>
  The \<open>useDarkMode\<close> hook of the page (lines 50--71) and the \<open>Switch\<close> primitive
  (\<open>src/src/components/ui/switch.jsx\<close>) that drives it. The browser is a record: the
  \<open>localStorage\<close> map, whether the browser lets the page touch it, the class list of
  the document root, and the answer of \<open>matchMedia\<close>. The hook's state is the
  \<open>useState\<close> cell, the dependency value of the last effect run, and the value of
  the last render. One React cycle is modelled as three kinds of step: a state update
  (\<open>setEnabled\<close>), a change event of a switch, and a commit (render, then the effect
  when its dependency changed). Every exception of the code is an \<open>Inl\<close>.
\<close>

subsection \<open>The browser\<close>

record browser =
  local_storage :: "jsstr \<rightharpoonup> jsstr"
  storage_allowed :: bool \<comment> \<open>false: reading \<open>window.localStorage\<close> throws\<close>
  root_classes :: "jsstr list" \<comment> \<open>\<open>document.documentElement.classList\<close>\<close>
  media_prefers_dark :: "bool option" \<comment> \<open>\<open>None\<close>: \<open>window.matchMedia\<close> is not a function\<close>

definition storage_getItem :: "browser \<Rightarrow> jsstr \<Rightarrow> js_error + jsstr option" where
  "storage_getItem b k = (if storage_allowed b then Inr (local_storage b k) else Inl SecurityError)"

text \<open>\<open>k in localStorage\<close>: a stored key is a property of the \<open>Storage\<close> object.\<close>

definition storage_has :: "browser \<Rightarrow> jsstr \<Rightarrow> js_error + bool" where
  "storage_has b k = (if storage_allowed b then Inr (k \<in> dom (local_storage b)) else Inl SecurityError)"

definition storage_setItem :: "browser \<Rightarrow> jsstr \<Rightarrow> jsstr \<Rightarrow> js_error + browser" where
  "storage_setItem b k v =
     (if storage_allowed b then Inr (b\<lparr>local_storage := (local_storage b)(k \<mapsto> v)\<rparr>)
      else Inl SecurityError)"

definition match_media_dark :: "browser \<Rightarrow> js_error + bool" where
  "match_media_dark b = (case media_prefers_dark b of None \<Rightarrow> Inl TypeError | Some m \<Rightarrow> Inr m)"

text \<open>\<open>DOMTokenList.add\<close> appends a token that is not there; \<open>remove\<close> drops it.\<close>

definition class_add :: "jsstr \<Rightarrow> jsstr list \<Rightarrow> jsstr list" where
  "class_add t cs = (if t \<in> set cs then cs else cs @ [t])"

definition class_remove :: "jsstr \<Rightarrow> jsstr list \<Rightarrow> jsstr list" where
  "class_remove t cs = removeAll t cs"

subsection \<open>The hook\<close>

text \<open>
  The lazy initialiser of \<open>useState\<close> (lines 51--57). Its argument is \<open>None\<close> when
  \<open>typeof window === "undefined"\<close>. \<open>||\<close> and \<open>&&\<close> short-circuit, so
  \<open>matchMedia\<close> is reached only when no theme is stored.
\<close>

definition dark_mode_initial :: "browser option \<Rightarrow> js_error + bool" where
  "dark_mode_initial w =
     (case w of
        None \<Rightarrow> Inr True
      | Some b \<Rightarrow>
          (case storage_getItem b (js ''theme'') of
             Inl e \<Rightarrow> Inl e
           | Inr v \<Rightarrow>
               if v = Some (js ''dark'') then Inr True
               else (case storage_has b (js ''theme'') of
                       Inl e \<Rightarrow> Inl e
                     | Inr True \<Rightarrow> Inr False
                     | Inr False \<Rightarrow> match_media_dark b)))"

text \<open>The effect of lines 59--68, run with the current \<open>enabled\<close>.\<close>

definition dark_mode_effect :: "bool \<Rightarrow> browser \<Rightarrow> js_error + browser" where
  "dark_mode_effect en b =
     (if en then storage_setItem (b\<lparr>root_classes := class_add (js ''dark'') (root_classes b)\<rparr>)
                   (js ''theme'') (js ''dark'')
      else storage_setItem (b\<lparr>root_classes := class_remove (js ''dark'') (root_classes b)\<rparr>)
             (js ''theme'') (js ''light''))"

record hook_state =
  enabled :: bool \<comment> \<open>the \<open>useState\<close> cell\<close>
  effect_deps :: "bool option" \<comment> \<open>\<open>[enabled]\<close> at the last effect run; \<open>None\<close> before it\<close>
  rendered :: bool \<comment> \<open>\<open>enabled\<close> as of the last render: the switches' \<open>checked\<close>\<close>
  page :: browser

text \<open>
  A commit renders the current state and runs the effect when its dependency
  differs from the last run (React compares with \<open>Object.is\<close>).
\<close>

definition commit :: "hook_state \<Rightarrow> js_error + hook_state" where
  "commit s =
     (let s' = s\<lparr>rendered := enabled s\<rparr> in
      if effect_deps s = Some (enabled s) then Inr s'
      else (case dark_mode_effect (enabled s) (page s) of
              Inl e \<Rightarrow> Inl e
            | Inr b \<Rightarrow> Inr (s'\<lparr>effect_deps := Some (enabled s), page := b\<rparr>)))"

text \<open>Mounting \<open>Portfolio\<close>: the initialiser, then the first commit.\<close>

definition mount :: "browser \<Rightarrow> js_error + hook_state" where
  "mount b =
     (case dark_mode_initial (Some b) of
        Inl e \<Rightarrow> Inl e
      | Inr v \<Rightarrow> commit \<lparr>enabled = v, effect_deps = None, rendered = v, page = b\<rparr>)"

text \<open>\<open>setEnabled\<close>, the state setter the hook returns.\<close>

definition set_enabled :: "bool \<Rightarrow> hook_state \<Rightarrow> hook_state" where
  "set_enabled v s = s\<lparr>enabled := v\<rparr>"

text \<open>
  \<open>Switch\<close> (\<open>switch.jsx\<close>, lines 3--13): a controlled checkbox whose change event
  calls \<open>onCheckedChange(e.target.checked)\<close> when a handler is given. A click flips
  the box, so \<open>e.target.checked\<close> is the negation of the rendered \<open>checked\<close>.
\<close>

definition switch_on_change :: "(bool \<Rightarrow> 's \<Rightarrow> 's) option \<Rightarrow> bool \<Rightarrow> 's \<Rightarrow> 's" where
  "switch_on_change h target_checked s =
     (case h of None \<Rightarrow> s | Some f \<Rightarrow> f target_checked s)"

datatype theme_event =
    SetEnabled bool \<comment> \<open>a call of \<open>setEnabled\<close>\<close>
  | SwitchClick \<comment> \<open>a click on one of the two switches of the navigation bar (lines 268, 275)\<close>
  | Commit

fun theme_step :: "hook_state \<Rightarrow> theme_event \<Rightarrow> js_error + hook_state" where
  "theme_step s (SetEnabled v) = Inr (set_enabled v s)"
| "theme_step s SwitchClick = Inr (switch_on_change (Some set_enabled) (\<not> rendered s) s)"
| "theme_step s Commit = commit s"

fun theme_run :: "hook_state \<Rightarrow> theme_event list \<Rightarrow> js_error + hook_state" where
  "theme_run s [] = Inr s"
| "theme_run s (e # es) = (case theme_step s e of Inl err \<Rightarrow> Inl err | Inr s' \<Rightarrow> theme_run s' es)"

inductive theme_reachable :: "hook_state \<Rightarrow> bool" where
  mounted: "mount b = Inr s \<Longrightarrow> theme_reachable s"
| step: "theme_reachable s \<Longrightarrow> theme_step s e = Inr s' \<Longrightarrow> theme_reachable s'"

subsection \<open>Consistency of flag, storage and root class\<close>

text \<open>
  The observable consistency the hook promises for a flag value \<open>c\<close>: \<open>"theme"\<close> is
  stored as \<open>"dark"\<close> or \<open>"light"\<close> according to \<open>c\<close>, and the root carries the class
  \<open>dark\<close> exactly when \<open>c\<close> holds.
\<close>

definition theme_consistent :: "bool \<Rightarrow> browser \<Rightarrow> bool" where
  "theme_consistent c b \<longleftrightarrow>
     local_storage b (js ''theme'') = Some (if c then js ''dark'' else js ''light'') \<and>
     (js ''dark'' \<in> set (root_classes b) \<longleftrightarrow> c)"

text \<open>
  The invariant of the hook after mounting: storage is usable, the last effect ran for
  the value last rendered, and the page is consistent with that value.
\<close>

definition theme_inv :: "hook_state \<Rightarrow> bool" where
  "theme_inv s \<longleftrightarrow>
     storage_allowed (page s) \<and> effect_deps s = Some (rendered s) \<and>
     theme_consistent (rendered s) (page s)"

subsection \<open>Lemmas\<close>

lemma js_dark_ne_light [simp]: "js ''dark'' \<noteq> js ''light''" "js ''light'' \<noteq> js ''dark''"
  by (simp_all add: js_def)

lemma dark_mode_effect_Inr:
  assumes "storage_allowed b"
  shows "\<exists>b'. dark_mode_effect en b = Inr b' \<and> theme_consistent en b' \<and>
           storage_allowed b' \<and> media_prefers_dark b' = media_prefers_dark b"
  using assms
  by (auto simp: dark_mode_effect_def storage_setItem_def theme_consistent_def
                 class_add_def class_remove_def)

lemma commit_inv:
  assumes "storage_allowed (page s)"
    and "effect_deps s = Some (enabled s) \<Longrightarrow> theme_consistent (enabled s) (page s)"
  shows "\<exists>s'. commit s = Inr s' \<and> theme_inv s' \<and> rendered s' = enabled s \<and>
           enabled s' = enabled s \<and> media_prefers_dark (page s') = media_prefers_dark (page s)"
proof (cases "effect_deps s = Some (enabled s)")
  case True
  with assms show ?thesis
    by (simp add: commit_def theme_inv_def Let_def)
next
  case False
  from assms(1) obtain b' where "dark_mode_effect (enabled s) (page s) = Inr b'"
    and "theme_consistent (enabled s) b'" "storage_allowed b'"
    and "media_prefers_dark b' = media_prefers_dark (page s)"
    using dark_mode_effect_Inr by blast
  with False show ?thesis
    by (simp add: commit_def theme_inv_def Let_def)
qed

lemma theme_step_inv:
  assumes "theme_inv s"
  shows "\<exists>s'. theme_step s e = Inr s' \<and> theme_inv s'"
proof (cases e)
  case (SetEnabled v)
  with assms show ?thesis
    by (simp add: set_enabled_def theme_inv_def)
next
  case SwitchClick
  with assms show ?thesis
    by (simp add: set_enabled_def switch_on_change_def theme_inv_def)
next
  case Commit
  from assms have "storage_allowed (page s)"
    and "effect_deps s = Some (enabled s) \<Longrightarrow> theme_consistent (enabled s) (page s)"
    by (auto simp: theme_inv_def)
  then obtain s' where "commit s = Inr s'" "theme_inv s'"
    using commit_inv by blast
  with Commit show ?thesis
    by simp
qed

lemma dark_mode_initial_Some:
  "dark_mode_initial (Some b) =
     (if \<not> storage_allowed b then Inl SecurityError
      else case local_storage b (js ''theme'') of
             Some v \<Rightarrow> Inr (v = js ''dark'')
           | None \<Rightarrow> (case media_prefers_dark b of None \<Rightarrow> Inl TypeError | Some m \<Rightarrow> Inr m))"
  by (auto simp: dark_mode_initial_def storage_getItem_def storage_has_def match_media_dark_def
                 domIff split: option.splits)

lemma dark_mode_initial_allowed: "dark_mode_initial (Some b) = Inr v \<Longrightarrow> storage_allowed b"
  by (simp add: dark_mode_initial_Some split: if_splits)

lemma mount_commit:
  assumes "mount b = Inr s"
  obtains v where "dark_mode_initial (Some b) = Inr v"
    and "commit \<lparr>enabled = v, effect_deps = None, rendered = v, page = b\<rparr> = Inr s"
  using assms by (auto simp: mount_def split: sum.splits)

lemma mount_inv:
  assumes "mount b = Inr s"
  shows "theme_inv s"
proof -
  from assms obtain v where init: "dark_mode_initial (Some b) = Inr v"
    and c: "commit \<lparr>enabled = v, effect_deps = None, rendered = v, page = b\<rparr> = Inr s"
    by (rule mount_commit)
  from init have "storage_allowed b"
    by (rule dark_mode_initial_allowed)
  then obtain s' where "commit \<lparr>enabled = v, effect_deps = None, rendered = v, page = b\<rparr> = Inr s'"
    and "theme_inv s'"
    using commit_inv [of "\<lparr>enabled = v, effect_deps = None, rendered = v, page = b\<rparr>"] by auto
  with c show ?thesis
    by simp
qed

lemma theme_reachable_inv: "theme_reachable s \<Longrightarrow> theme_inv s"
proof (induction rule: theme_reachable.induct)
  case (mounted b s)
  then show ?case by (rule mount_inv)
next
  case (step s e s')
  from step.IH obtain t where "theme_step s e = Inr t" and "theme_inv t"
    using theme_step_inv by blast
  with step.hyps(2) show ?case
    by simp
qed

lemma theme_inv_commit:
  assumes "theme_inv s"
  shows "\<exists>s'. commit s = Inr s' \<and> theme_inv s' \<and> rendered s' = enabled s \<and>
           theme_consistent (enabled s) (page s')"
proof -
  from assms have "storage_allowed (page s)"
    and "effect_deps s = Some (enabled s) \<Longrightarrow> theme_consistent (enabled s) (page s)"
    by (auto simp: theme_inv_def)
  then obtain s' where "commit s = Inr s'" "theme_inv s'" "rendered s' = enabled s"
    using commit_inv by blast
  then show ?thesis
    by (auto simp: theme_inv_def)
qed

lemma switch_click_commit:
  assumes "theme_inv s"
  shows "\<exists>s'. theme_run s [SwitchClick, Commit] = Inr s' \<and> rendered s' = (\<not> rendered s) \<and>
           theme_consistent (\<not> rendered s) (page s')"
proof -
  let ?t = "set_enabled (\<not> rendered s) s"
  have t: "theme_step s SwitchClick = Inr ?t"
    by (simp add: switch_on_change_def)
  from assms have "theme_inv ?t"
    by (simp add: theme_inv_def set_enabled_def)
  then obtain s' where "commit ?t = Inr s'" "rendered s' = enabled ?t"
    "theme_consistent (enabled ?t) (page s')"
    using theme_inv_commit by blast
  with t show ?thesis
    by (simp add: set_enabled_def)
qed

lemma theme_demo_reachable:
  "theme_reachable \<lparr>enabled = True, effect_deps = Some True, rendered = True,
      page = \<lparr>local_storage = [js ''theme'' \<mapsto> js ''dark''], storage_allowed = True,
              root_classes = [js ''dark''], media_prefers_dark = Some True\<rparr>\<rparr>"
proof (rule theme_reachable.mounted)
  show "mount \<lparr>local_storage = Map.empty, storage_allowed = True, root_classes = [],
             media_prefers_dark = Some True\<rparr> =
    Inr \<lparr>enabled = True, effect_deps = Some True, rendered = True,
      page = \<lparr>local_storage = [js ''theme'' \<mapsto> js ''dark''], storage_allowed = True,
              root_classes = [js ''dark''], media_prefers_dark = Some True\<rparr>\<rparr>"
    by (simp add: mount_def dark_mode_initial_Some commit_def dark_mode_effect_def
                  storage_setItem_def class_add_def)
qed

subsection \<open>Properties\<close>

text \<open>
  C2. In every state the hook can reach after mounting, also between a \<open>setEnabled\<close>
  and the commit that follows it, the stored theme and the root's \<open>dark\<close> class agree
  with the value the switches show, and the last effect ran for that value.
\<close>

theorem theme_reachable_consistent:
  "theme_reachable s \<Longrightarrow> effect_deps s = Some (rendered s) \<and> theme_consistent (rendered s) (page s)"
  using theme_reachable_inv theme_inv_def by blast

theorem theme_reachable_consistent_witness:
  "theme_reachable \<lparr>enabled = True, effect_deps = Some True, rendered = True,
      page = \<lparr>local_storage = [js ''theme'' \<mapsto> js ''dark''], storage_allowed = True,
              root_classes = [js ''dark''], media_prefers_dark = Some True\<rparr>\<rparr> \<and>
   theme_consistent True \<lparr>local_storage = [js ''theme'' \<mapsto> js ''dark''], storage_allowed = True,
              root_classes = [js ''dark''], media_prefers_dark = Some True\<rparr>"
  using theme_demo_reachable theme_reachable_consistent [OF theme_demo_reachable] by simp

text \<open>
  C8. After any sequence of updates, the next commit renders the in-memory flag and
  leaves the stored theme and the root class consistent with it.
\<close>

theorem theme_commit_reflects_flag:
  "theme_reachable s \<Longrightarrow>
     \<exists>s'. theme_step s Commit = Inr s' \<and> rendered s' = enabled s \<and>
          theme_consistent (enabled s) (page s')"
  using theme_inv_commit theme_reachable_inv by fastforce

theorem theme_commit_reflects_flag_witness:
  "\<exists>s'. theme_step \<lparr>enabled = False, effect_deps = Some True, rendered = True,
      page = \<lparr>local_storage = [js ''theme'' \<mapsto> js ''dark''], storage_allowed = True,
              root_classes = [js ''dark''], media_prefers_dark = Some True\<rparr>\<rparr> Commit = Inr s' \<and>
     rendered s' = False \<and> theme_consistent False (page s')"
proof -
  have "theme_reachable \<lparr>enabled = False, effect_deps = Some True, rendered = True,
      page = \<lparr>local_storage = [js ''theme'' \<mapsto> js ''dark''], storage_allowed = True,
              root_classes = [js ''dark''], media_prefers_dark = Some True\<rparr>\<rparr>"
    by (rule theme_reachable.step [OF theme_demo_reachable, of "SetEnabled False"])
       (simp add: set_enabled_def)
  from theme_commit_reflects_flag [OF this] show ?thesis
    by simp
qed

text \<open>
  C9. Once mounted, the hook never throws: every step from a reachable state succeeds
  and leads to a reachable state.
\<close>

theorem theme_never_throws_after_mount:
  "theme_reachable s \<Longrightarrow> \<exists>s'. theme_step s e = Inr s' \<and> theme_reachable s'"
  by (meson theme_reachable.step theme_reachable_inv theme_step_inv)

theorem theme_never_throws_after_mount_witness:
  "\<exists>s'. theme_step \<lparr>enabled = True, effect_deps = Some True, rendered = True,
      page = \<lparr>local_storage = [js ''theme'' \<mapsto> js ''dark''], storage_allowed = True,
              root_classes = [js ''dark''], media_prefers_dark = Some True\<rparr>\<rparr> SwitchClick = Inr s' \<and>
     theme_reachable s'"
  by (rule theme_never_throws_after_mount [OF theme_demo_reachable])

text \<open>
  C5. The persisted choice survives a reload: a new session initialised from the
  storage of any reachable state starts with the value that state shows, whatever the
  operating system prefers.
\<close>

theorem theme_session_roundtrip:
  "theme_reachable s \<Longrightarrow>
     dark_mode_initial (Some (page s\<lparr>media_prefers_dark := m\<rparr>)) = Inr (rendered s)"
  using theme_reachable_inv [of s]
  by (auto simp: theme_inv_def theme_consistent_def dark_mode_initial_Some)

theorem theme_session_roundtrip_witness:
  "dark_mode_initial (Some \<lparr>local_storage = [js ''theme'' \<mapsto> js ''dark''], storage_allowed = True,
              root_classes = [js ''dark''], media_prefers_dark = Some False\<rparr>) = Inr True"
  using theme_session_roundtrip [OF theme_demo_reachable, of "Some False"] by simp

text \<open>
  C10. The initialiser on every branch: no window gives dark; a blocked storage throws
  \<open>SecurityError\<close>; a stored theme decides (dark only for \<open>"dark"\<close>) without consulting
  the system; with nothing stored the system preference decides, and a browser without
  \<open>matchMedia\<close> throws \<open>TypeError\<close>.
\<close>

theorem dark_mode_initial_cases:
  "dark_mode_initial w =
     (case w of
        None \<Rightarrow> Inr True
      | Some b \<Rightarrow>
          if \<not> storage_allowed b then Inl SecurityError
          else case local_storage b (js ''theme'') of
                 Some v \<Rightarrow> Inr (v = js ''dark'')
               | None \<Rightarrow> (case media_prefers_dark b of None \<Rightarrow> Inl TypeError | Some m \<Rightarrow> Inr m))"
  by (cases w) (simp_all add: dark_mode_initial_Some, simp add: dark_mode_initial_def)

text \<open>
  C17. Mounting succeeds exactly when storage is usable and either a theme is stored or
  the browser answers \<open>matchMedia\<close>.
\<close>

theorem mount_succeeds_iff:
  "(\<exists>s. mount b = Inr s) \<longleftrightarrow>
     storage_allowed b \<and> (local_storage b (js ''theme'') \<noteq> None \<or> media_prefers_dark b \<noteq> None)"
proof
  assume "\<exists>s. mount b = Inr s"
  then obtain s v where "dark_mode_initial (Some b) = Inr v"
    by (metis mount_commit)
  then show "storage_allowed b \<and> (local_storage b (js ''theme'') \<noteq> None \<or> media_prefers_dark b \<noteq> None)"
    by (auto simp: dark_mode_initial_Some split: if_splits option.splits)
next
  assume ok: "storage_allowed b \<and> (local_storage b (js ''theme'') \<noteq> None \<or> media_prefers_dark b \<noteq> None)"
  then have "\<exists>v. dark_mode_initial (Some b) = Inr v"
    by (auto simp: dark_mode_initial_Some split: option.splits)
  then obtain v where "dark_mode_initial (Some b) = Inr v" ..
  moreover obtain s where "commit \<lparr>enabled = v, effect_deps = None, rendered = v, page = b\<rparr> = Inr s"
    using ok commit_inv [of "\<lparr>enabled = v, effect_deps = None, rendered = v, page = b\<rparr>"] by auto
  ultimately show "\<exists>s. mount b = Inr s"
    by (auto simp: mount_def)
qed

theorem mount_succeeds_iff_witness:
  "(\<exists>s. mount \<lparr>local_storage = Map.empty, storage_allowed = True, root_classes = [],
                 media_prefers_dark = Some False\<rparr> = Inr s) \<and>
   \<not> (\<exists>s. mount \<lparr>local_storage = Map.empty, storage_allowed = True, root_classes = [],
                 media_prefers_dark = None\<rparr> = Inr s)"
  using mount_succeeds_iff [of "\<lparr>local_storage = Map.empty, storage_allowed = True, root_classes = [],
                 media_prefers_dark = Some False\<rparr>"]
        mount_succeeds_iff [of "\<lparr>local_storage = Map.empty, storage_allowed = True, root_classes = [],
                 media_prefers_dark = None\<rparr>"]
  by simp

text \<open>
  C16. A click on a switch followed by the commit flips the shown value and leaves
  storage and root class consistent with the new value.
\<close>

theorem switch_click_toggles:
  "theme_reachable s \<Longrightarrow>
     \<exists>s'. theme_run s [SwitchClick, Commit] = Inr s' \<and> rendered s' = (\<not> rendered s) \<and>
          theme_consistent (\<not> rendered s) (page s')"
  by (rule switch_click_commit [OF theme_reachable_inv])

theorem switch_click_toggles_witness:
  "\<exists>s'. theme_run \<lparr>enabled = True, effect_deps = Some True, rendered = True,
      page = \<lparr>local_storage = [js ''theme'' \<mapsto> js ''dark''], storage_allowed = True,
              root_classes = [js ''dark''], media_prefers_dark = Some True\<rparr>\<rparr> [SwitchClick, Commit] = Inr s' \<and>
     rendered s' = False \<and> theme_consistent False (page s')"
  using switch_click_toggles [OF theme_demo_reachable] by simp

text \<open>
  The scenario of the design notes: in a browser that prefers dark and has nothing
  stored, the page mounts dark; \<open>setEnabled(false)\<close> and its commit store \<open>"light"\<close>,
  and a fresh session on that storage starts light.
\<close>

theorem theme_light_reload_scenario:
  "\<exists>s s'. mount \<lparr>local_storage = Map.empty, storage_allowed = True, root_classes = [],
                  media_prefers_dark = Some True\<rparr> = Inr s \<and> enabled s \<and>
          theme_run s [SetEnabled False, Commit] = Inr s' \<and>
          local_storage (page s') (js ''theme'') = Some (js ''light'') \<and>
          dark_mode_initial (Some (page s')) = Inr False"
  by (simp add: mount_def dark_mode_initial_Some commit_def dark_mode_effect_def set_enabled_def
                storage_setItem_def class_add_def class_remove_def)

text \<open>
  C20. Whatever state the hook is in, the user can always get the theme they want:
  with at most three events, each a click on a switch or a commit, the switches show
  the chosen value and storage and root class agree with it.
\<close>

theorem theme_user_reaches_choice:
  assumes "theme_reachable s"
  shows "\<exists>es s'. set es \<subseteq> {SwitchClick, Commit} \<and> length es \<le> 3 \<and> theme_run s es = Inr s' \<and>
           rendered s' = v \<and> theme_consistent v (page s')"
proof -
  from assms have "theme_inv s"
    by (rule theme_reachable_inv)
  then obtain s1 where c: "commit s = Inr s1" and i: "theme_inv s1" and r: "rendered s1 = enabled s"
    and k: "theme_consistent (enabled s) (page s1)"
    using theme_inv_commit by blast
  show ?thesis
  proof (cases "enabled s = v")
    case True
    with c r k show ?thesis
      by (intro exI [of _ "[Commit]"]) auto
  next
    case False
    from switch_click_commit [OF i] obtain s' where
      "theme_run s1 [SwitchClick, Commit] = Inr s'" "rendered s' = (\<not> rendered s1)"
      "theme_consistent (\<not> rendered s1) (page s')"
      by blast
    with c r False show ?thesis
      by (intro exI [of _ "[Commit, SwitchClick, Commit]"]) auto
  qed
qed

theorem theme_user_reaches_choice_witness:
  "\<exists>es s'. set es \<subseteq> {SwitchClick, Commit} \<and> length es \<le> 3 \<and>
     theme_run \<lparr>enabled = True, effect_deps = Some True, rendered = True,
      page = \<lparr>local_storage = [js ''theme'' \<mapsto> js ''dark''], storage_allowed = True,
              root_classes = [js ''dark''], media_prefers_dark = Some True\<rparr>\<rparr> es = Inr s' \<and>
     rendered s' = False \<and> theme_consistent False (page s')"
  by (rule theme_user_reaches_choice [OF theme_demo_reachable])

end
