(* ===== verification/PortfolioData.thy ===== *)
theory PortfolioData
  imports Complex_Main JsString
begin

text \<open>
  The static data of the page (lines 74--164): the skill groups, the projects, the
  certifications and the career timeline, as the literal arrays of the source. A
  JavaScript object literal is a record; the fields of a certification and of a
  timeline entry carry a prefix because HOL records of one theory cannot share field
  names (\<open>cert_title\<close> is the source's \<open>title\<close> of a certification). Years of
  certifications are integral numbers, so \<open>int\<close>; the fractional years of the timeline
  are rationals.
\<close>

record project =
  title :: jsstr
  tags :: "jsstr list"
  blurb :: jsstr
  link :: jsstr

record certification =
  cert_title :: jsstr
  cert_org :: jsstr
  cert_year :: int

record timeline_entry =
  tl_year :: rat
  tl_label :: jsstr
  tl_value :: int

text \<open>\<open>skills\<close>: an object literal, read by \<open>Object.entries\<close> in insertion order.\<close>

definition skills :: "(jsstr \<times> jsstr list) list" where
  "skills =
     [(js ''Data & Database'', map js [''SQL'', ''PL/SQL'', ''Oracle DB'', ''Data Modeling'']),
      (js ''Visualization'', map js [''Power BI'', ''Crystal Reports'', ''Seaborn'', ''Matplotlib'']),
      (js ''AI/ML & GenAI'', map js [''Python'', ''Pandas'', ''NumPy'', ''HuggingFace'', ''LangChain'',
         ''Pinecone'', ''Weaviate'', ''FAISS'', ''FastAPI'', ''Flask'', ''Streamlit'']),
      (js ''Banking Solutions'', map js [''Core Banking'', ''MIS Reports'', ''Data Analytics''])]"

definition projects :: "project list" where
  "projects =
     [\<lparr>title = js ''Loan Performance Analysis'', tags = map js [''SQL'', ''Python'', ''Power BI''],
       blurb = js ''Analyzed loan portfolios to identify delinquency patterns and optimized risk metrics; interactive KPI dashboards.'',
       link = js ''#''\<rparr>,
      \<lparr>title = js ''Branch-wise Profit & Loss Prediction Dashboard'',
       tags = map js [''Forecasting'', ''Python'', ''Power BI''],
       blurb = js ''Predictive modeling for P&L with feature-engineered macro & seasonal signals; deployed for management review.'',
       link = js ''#''\<rparr>,
      \<lparr>title = js ''Clean Cash Analysis'', tags = map js [''ETL'', ''SQL'', ''Excel''],
       blurb = js ''Automated ingestion and reconciliation workflows to flag anomalies in cash cycles.'',
       link = js ''#''\<rparr>,
      \<lparr>title = js ''Zone-wise Sales Forecasting'', tags = map js [''Time Series'', ''Python'', ''Streamlit''],
       blurb = js ''ARIMA/Prophet-based forecasts with what-if analysis embedded into a Streamlit app.'',
       link = js ''#''\<rparr>,
      \<lparr>title = js ''Customer Review Sentiment Analysis (Food Shop)'',
       tags = map js [''NLP'', ''HuggingFace'', ''LangChain''],
       blurb = js ''Fine-tuned transformers for sentiment trends and aspect mining from multi-source reviews.'',
       link = js ''#''\<rparr>,
      \<lparr>title = js ''Bulk Email Automation with AI'', tags = map js [''Generative AI'', ''FastAPI'', ''LangChain''],
       blurb = js ''Context-aware email generation & scheduling; integrated vector search using Pinecone.'',
       link = js ''#''\<rparr>,
      \<lparr>title = js ''Email Data Analytics (Response Time & Trends)'',
       tags = map js [''Analytics'', ''Python'', ''Dashboards''],
       blurb = js ''Response time SLAs & trend analytics with anomaly detection and executive summaries.'',
       link = js ''#''\<rparr>]"

definition certifications :: "certification list" where
  "certifications =
     [\<lparr>cert_title = js ''Advanced Power BI Custom Visuals with d3.js'', cert_org = js ''LinkedIn'',
       cert_year = 2023\<rparr>,
      \<lparr>cert_title = js ''Python for Data Science & ML'', cert_org = js ''LinkedIn'', cert_year = 2022\<rparr>,
      \<lparr>cert_title = js ''SQL Data Reporting & Analysis'', cert_org = js ''LinkedIn'', cert_year = 2021\<rparr>,
      \<lparr>cert_title = js ''Career Essentials in Data Analysis'', cert_org = js ''Microsoft'',
       cert_year = 2024\<rparr>]"

text \<open>The last label holds an en dash, U+2013, one UTF-16 code unit.\<close>

definition timeline :: "timeline_entry list" where
  "timeline =
     [\<lparr>tl_year = 20199 / 10, tl_label = js ''Joined Leads Corporation Ltd'', tl_value = 1\<rparr>,
      \<lparr>tl_year = 20205 / 10, tl_label = js ''Core Banking & Data Analytics'', tl_value = 2\<rparr>,
      \<lparr>tl_year = 20215 / 10, tl_label = js ''Crystal Reports & Power BI'', tl_value = 3\<rparr>,
      \<lparr>tl_year = 20225 / 10, tl_label = js ''Performance Tuning & SQL Automation'', tl_value = 4\<rparr>,
      \<lparr>tl_year = 20232 / 10, tl_label = js ''Joined Meghna Bank PLC'', tl_value = 5\<rparr>,
      \<lparr>tl_year = 20242 / 10, tl_label = js ''GenAI Apps & Vector Search'', tl_value = 6\<rparr>,
      \<lparr>tl_year = 2025, tl_label = js ''Assistant Officer '' @ [0x2013] @ js '' DA & Python Dev'',
       tl_value = 7\<rparr>]"

end
