(* ===== verification/Filters.thy ===== *)
theory Filters
  imports PortfolioData
begin

text \<open>
  The two search filters of \<open>Portfolio\<close> (lines 221--240) and the React keys of the
  lists they feed (lines 511 and 560--561). The \<open>useMemo\<close> bodies are pure
  functions of the query and of the module-level arrays; here the array is a
  parameter, and \<open>filteredProjects\<close> of the page is \<open>filtered_projects query projects\<close>.
  The abstract specification \<open>text_filter\<close> is the generic filter of the design
  notes: keep, in order, the items of which some extracted field contains the query, compared
  case-insensitively. Both filters are proved to implement it, the certification filter
  with its raw year comparison included.
\<close>

subsection \<open>The filters\<close>

definition project_matches :: "jsstr \<Rightarrow> project \<Rightarrow> bool" where
  "project_matches query p \<longleftrightarrow>
     js_includes (js_toLowerCase (title p)) (js_toLowerCase query) \<or>
     list_ex (\<lambda>t. js_includes (js_toLowerCase t) (js_toLowerCase query)) (tags p)"

definition filtered_projects :: "jsstr \<Rightarrow> project list \<Rightarrow> project list" where
  "filtered_projects query ps = filter (project_matches query) ps"

text \<open>\<open>(c.year + "")\<close> is \<open>ToString(c.year)\<close> followed by the empty string.\<close>

definition cert_matches :: "jsstr \<Rightarrow> certification \<Rightarrow> bool" where
  "cert_matches certQuery c \<longleftrightarrow>
     js_includes (js_toLowerCase (cert_title c)) (js_toLowerCase certQuery) \<or>
     js_includes (js_toLowerCase (cert_org c)) (js_toLowerCase certQuery) \<or>
     js_includes (js_int_to_string (cert_year c) @ js '''') certQuery"

definition filtered_certs :: "jsstr \<Rightarrow> certification list \<Rightarrow> certification list" where
  "filtered_certs certQuery cs = filter (cert_matches certQuery) cs"

subsection \<open>The React keys\<close>

text \<open>
  \<open>key={p.title}\<close> for a project card; \<open>key={c.title + idx}\<close> for a certification,
  \<open>idx\<close> its position in the filtered list, converted by \<open>ToString\<close>.
\<close>

definition project_keys :: "project list \<Rightarrow> jsstr list" where
  "project_keys ps = map title ps"

definition cert_key :: "certification \<Rightarrow> nat \<Rightarrow> jsstr" where
  "cert_key c idx = cert_title c @ js_int_to_string (int idx)"

definition cert_keys :: "certification list \<Rightarrow> jsstr list" where
  "cert_keys cs = map (\<lambda>(c, idx). cert_key c idx) (zip cs [0..<length cs])"

subsection \<open>The specification\<close>

definition text_filter :: "('a \<Rightarrow> jsstr list) \<Rightarrow> jsstr \<Rightarrow> 'a list \<Rightarrow> 'a list" where
  "text_filter extract q xs =
     filter (\<lambda>x. \<exists>f \<in> set (extract x). sublist (js_toLowerCase q) (js_toLowerCase f)) xs"

definition project_fields :: "project \<Rightarrow> jsstr list" where
  "project_fields p = title p # tags p"

definition cert_fields :: "certification \<Rightarrow> jsstr list" where
  "cert_fields c = [cert_title c, cert_org c, js_int_to_string (cert_year c)]"

subsection \<open>Lemmas: the specification\<close>

lemma text_filter_subseq: "subseq (text_filter extract q xs) xs"
  by (simp add: text_filter_def)

lemma text_filter_Nil_query: "text_filter extract [] xs = filter (\<lambda>x. extract x \<noteq> []) xs"
  by (simp add: text_filter_def ex_in_conv)

lemma text_filter_idem: "text_filter extract q (text_filter extract q xs) = text_filter extract q xs"
  by (simp add: text_filter_def)

lemma text_filter_narrows:
  "sublist q1 q2 \<Longrightarrow> subseq (text_filter extract q2 xs) (text_filter extract q1 xs)"
  unfolding text_filter_def
  by (rule subseq_filter_mono) (meson sublist_js_toLowerCase sublist_trans)

lemma text_filter_lower_cong:
  "js_toLowerCase q1 = js_toLowerCase q2 \<Longrightarrow> text_filter extract q1 xs = text_filter extract q2 xs"
  by (simp add: text_filter_def)

lemma text_filter_lower: "text_filter extract (js_toLowerCase q) xs = text_filter extract q xs"
  by (simp add: text_filter_def)

subsection \<open>Lemmas: refinement\<close>

lemma project_matches_spec:
  "project_matches q p \<longleftrightarrow> (\<exists>f \<in> set (project_fields p). sublist (js_toLowerCase q) (js_toLowerCase f))"
  by (auto simp: project_matches_def project_fields_def js_includes_iff_sublist list_ex_iff)

lemma cert_matches_spec:
  "cert_matches q c \<longleftrightarrow> (\<exists>f \<in> set (cert_fields c). sublist (js_toLowerCase q) (js_toLowerCase f))"
proof -
  have y: "list_all is_numeral_unit (js_int_to_string (cert_year c))"
    by (rule js_int_to_string_numeral)
  then have "js_toLowerCase (js_int_to_string (cert_year c)) = js_int_to_string (cert_year c)"
    by (rule js_toLowerCase_numeral)
  with sublist_numeral_lower [OF y, of q] show ?thesis
    by (auto simp: cert_matches_def cert_fields_def js_includes_iff_sublist)
qed

lemma digit_suffix:
  assumes "list_all is_digit_unit d" and "t = [] \<or> \<not> is_digit_unit (last t)"
  shows "takeWhile is_digit_unit (rev (t @ d)) = rev d"
proof -
  have "takeWhile is_digit_unit (rev t) = []"
    using assms(2) by (cases t rule: rev_cases) auto
  moreover have "takeWhile is_digit_unit (rev d @ rev t) = rev d @ takeWhile is_digit_unit (rev t)"
    by (rule takeWhile_append2) (use assms(1) in \<open>simp add: list_all_iff\<close>)
  ultimately show ?thesis
    by simp
qed

lemma cert_key_index_inj:
  assumes "cert_key c1 i = cert_key c2 j"
    and "cert_title c1 = [] \<or> \<not> is_digit_unit (last (cert_title c1))"
    and "cert_title c2 = [] \<or> \<not> is_digit_unit (last (cert_title c2))"
  shows "i = j"
proof -
  have "rev (nat_digits i) = takeWhile is_digit_unit (rev (cert_title c1 @ nat_digits i))"
    using digit_suffix [OF nat_digits_digits assms(2)] by simp
  also have "cert_title c1 @ nat_digits i = cert_title c2 @ nat_digits j"
    using assms(1) by (simp add: cert_key_def js_int_to_string_def)
  also have "takeWhile is_digit_unit (rev \<dots>) = rev (nat_digits j)"
    using digit_suffix [OF nat_digits_digits assms(3)] by simp
  finally show "i = j"
    by (simp add: nat_digits_inj)
qed

lemma cert_keys_distinct_if:
  assumes "\<forall>c \<in> set cs. cert_title c = [] \<or> \<not> is_digit_unit (last (cert_title c))"
  shows "distinct (cert_keys cs)"
proof -
  have "inj_on (\<lambda>(c, idx). cert_key c idx) (set (zip cs [0..<length cs]))"
  proof (rule inj_onI, clarify)
    fix c1 i c2 j
    assume m1: "(c1, i) \<in> set (zip cs [0..<length cs])"
      and m2: "(c2, j) \<in> set (zip cs [0..<length cs])"
      and eq: "cert_key c1 i = cert_key c2 j"
    from m1 m2 have "c1 \<in> set cs" "c2 \<in> set cs"
      by (auto dest: set_zip_leftD)
    with assms eq have "i = j"
      by (blast intro: cert_key_index_inj)
    with m1 m2 show "c1 = c2 \<and> i = j"
      by (auto simp: set_zip)
  qed
  then show ?thesis
    by (simp add: cert_keys_def distinct_map distinct_zipI2)
qed

lemma filtered_projects_text_filter: "filtered_projects q ps = text_filter project_fields q ps"
  unfolding filtered_projects_def text_filter_def
  by (rule filter_cong) (simp_all add: project_matches_spec)

lemma filtered_certs_text_filter: "filtered_certs q cs = text_filter cert_fields q cs"
  unfolding filtered_certs_def text_filter_def
  by (rule filter_cong) (simp_all add: cert_matches_spec)

lemma cert_titles_no_digit_end:
  "\<forall>c \<in> set certifications. cert_title c = [] \<or> \<not> is_digit_unit (last (cert_title c))"
  by (simp add: certifications_def js_def is_digit_unit_def)

lemma filtered_project_keys_distinct: "distinct (project_keys (filtered_projects q projects))"
proof -
  have "distinct (project_keys projects)"
    by (simp add: project_keys_def projects_def js_def)
  then show ?thesis
    by (simp add: project_keys_def filtered_projects_def distinct_map_filter)
qed

lemma filtered_cert_keys_distinct: "distinct (cert_keys (filtered_certs q certifications))"
proof -
  have "set (filtered_certs q certifications) \<subseteq> set certifications"
    by (auto simp: filtered_certs_def)
  then show ?thesis
    using cert_titles_no_digit_end by (blast intro: cert_keys_distinct_if)
qed

subsection \<open>Properties\<close>

text \<open>
  C1. Both filters implement the generic specification: the project filter searches
  the title and the tags, the certification filter the title, the organisation and the
  decimal year, all case-insensitively. The raw comparison of the year against the
  unlowered query that the code makes agrees with the case-insensitive one.
\<close>

theorem filters_refine_text_filter:
  "filtered_projects q ps = text_filter project_fields q ps \<and>
   filtered_certs q cs = text_filter cert_fields q cs"
  by (simp add: filtered_projects_text_filter filtered_certs_text_filter)

text \<open>C15. The empty query keeps every project and every certification, in order.\<close>

theorem filters_empty_query: "filtered_projects [] ps = ps \<and> filtered_certs [] cs = cs"
  by (simp add: filtered_projects_text_filter filtered_certs_text_filter text_filter_Nil_query
                project_fields_def cert_fields_def)

text \<open>
  C13. Typing more narrows the view: when the old query is a contiguous part of the new
  one, the new result is a subsequence of the old one, for both lists.
\<close>

theorem filters_narrow:
  "sublist q1 q2 \<Longrightarrow>
     subseq (filtered_projects q2 ps) (filtered_projects q1 ps) \<and>
     subseq (filtered_certs q2 cs) (filtered_certs q1 cs)"
  by (simp add: filtered_projects_text_filter filtered_certs_text_filter text_filter_narrows)

theorem filters_narrow_witness:
  "sublist (js ''py'') (js ''pyth'') \<and>
   subseq (filtered_projects (js ''pyth'') projects) (filtered_projects (js ''py'') projects) \<and>
   subseq (filtered_certs (js ''pyth'') certifications) (filtered_certs (js ''py'') certifications)"
proof -
  have "js ''pyth'' = js ''py'' @ js ''th''"
    by (simp add: js_def)
  then have h: "sublist (js ''py'') (js ''pyth'')"
    by (metis sublist_append_rightI)
  show ?thesis
    using h filters_narrow [OF h, of projects certifications] by blast
qed

text \<open>
  C6. Both filters ignore the case of the query: two queries with the same lower case
  select the same items. For certifications this includes the year, which the code
  compares with the raw query.
\<close>

theorem filters_case_insensitive:
  "js_toLowerCase q1 = js_toLowerCase q2 \<Longrightarrow>
     filtered_projects q1 ps = filtered_projects q2 ps \<and> filtered_certs q1 cs = filtered_certs q2 cs"
proof -
  assume h: "js_toLowerCase q1 = js_toLowerCase q2"
  show ?thesis
    by (simp add: filtered_projects_text_filter filtered_certs_text_filter text_filter_lower_cong [OF h])
qed

theorem filters_case_insensitive_witness:
  "js_toLowerCase (js ''SQL'') = js_toLowerCase (js ''sql'') \<and>
   filtered_projects (js ''SQL'') projects = filtered_projects (js ''sql'') projects \<and>
   filtered_certs (js ''SQL'') certifications = filtered_certs (js ''sql'') certifications"
proof -
  have h: "js_toLowerCase (js ''SQL'') = js_toLowerCase (js ''sql'')"
    by (simp add: js_def js_toLowerCase_def lower_unit_def)
  show ?thesis
    using h filters_case_insensitive [OF h, of projects certifications] by blast
qed

end
