(* ===== verification/Timeline.thy ===== *)
theory Timeline
  imports PortfolioData
begin

text \<open>
  The tooltip of the career chart (line 379). Recharts calls the \<open>formatter\<close> with
  the hovered value, the series name and the tooltip item, whose \<open>payload\<close> is the
  hovered data object of \<open>timeline\<close>. The formatter reads \<open>p?.payload?.index\<close>,
  falls back to 0 with \<open>||\<close>, and shows the \<open>label\<close> of \<open>timeline\<close> at that index.
  JavaScript values that occur on this path are a small datatype; a property read on a
  timeline object yields \<open>undefined\<close> for every key but \<open>year\<close>, \<open>label\<close> and
  \<open>value\<close>.
\<close>

datatype jsval = JUndefined | JNull | JNum rat | JStr jsstr

record tooltip_item =
  item_value :: int
  item_payload :: "timeline_entry option" \<comment> \<open>\<open>None\<close>: \<open>p.payload\<close> is undefined\<close>

definition timeline_get :: "timeline_entry \<Rightarrow> jsstr \<Rightarrow> jsval" where
  "timeline_get e k =
     (if k = js ''year'' then JNum (tl_year e)
      else if k = js ''label'' then JStr (tl_label e)
      else if k = js ''value'' then JNum (of_int (tl_value e))
      else JUndefined)"

text \<open>\<open>a || b\<close>: \<open>b\<close> when \<open>a\<close> is falsy (\<open>undefined\<close>, \<open>null\<close>, 0, the empty string).\<close>

definition js_or :: "jsval \<Rightarrow> jsval \<Rightarrow> jsval" where
  "js_or a b =
     (case a of JUndefined \<Rightarrow> b | JNull \<Rightarrow> b | JNum n \<Rightarrow> if n = 0 then b else a
      | JStr s \<Rightarrow> if s = [] then b else a)"

text \<open>
  \<open>xs[i]\<close> on an array: an element for an integral index in range, \<open>undefined\<close> (here
  \<open>None\<close>) otherwise.
\<close>

definition array_at :: "'a list \<Rightarrow> jsval \<Rightarrow> 'a option" where
  "array_at xs i =
     (case i of
        JNum n \<Rightarrow> if n = of_int \<lfloor>n\<rfloor> \<and> 0 \<le> n \<and> n < of_nat (length xs) then Some (xs ! nat \<lfloor>n\<rfloor>) else None
      | _ \<Rightarrow> None)"

text \<open>The formatter: \<open>["Level " + v, timeline[p?.payload?.index || 0]?.label]\<close>.\<close>

definition tooltip_formatter :: "int \<Rightarrow> tooltip_item option \<Rightarrow> jsstr \<times> jsstr option" where
  "tooltip_formatter v p =
     (let idx = (case p of None \<Rightarrow> JUndefined
                 | Some it \<Rightarrow> (case item_payload it of None \<Rightarrow> JUndefined
                               | Some e \<Rightarrow> timeline_get e (js ''index'')))
      in (js ''Level '' @ js_int_to_string v, map_option tl_label (array_at timeline (js_or idx (JNum 0)))))"

subsection \<open>Lemmas\<close>

lemma timeline_get_index [simp]: "timeline_get e (js ''index'') = JUndefined"
  by (simp add: timeline_get_def js_def)

lemma array_at_zero: "xs \<noteq> [] \<Longrightarrow> array_at xs (JNum 0) = Some (hd xs)"
  by (simp add: array_at_def hd_conv_nth)

lemma tooltip_label_index_zero:
  "snd (tooltip_formatter v (Some \<lparr>item_value = w, item_payload = Some e\<rparr>)) = Some (tl_label (hd timeline))"
proof -
  have "timeline \<noteq> []"
    by (simp add: timeline_def)
  then show ?thesis
    by (simp add: tooltip_formatter_def js_or_def array_at_zero)
qed

subsection \<open>Properties\<close>

text \<open>
  C4. The tooltip shows \<open>"Level "\<close> and the hovered value, but the label of the first
  timeline entry for every hovered point: the data objects have no \<open>index\<close> property,
  so \<open>p.payload.index || 0\<close> is always 0.
\<close>

theorem tooltip_shows_first_label:
  "tooltip_formatter v (Some \<lparr>item_value = w, item_payload = Some e\<rparr>) =
     (js ''Level '' @ js_int_to_string v, Some (tl_label (hd timeline)))"
  using tooltip_label_index_zero [of v w e]
  by (simp add: tooltip_formatter_def prod_eq_iff)

text \<open>
  Hovering the last point of the chart (2025, level 7) shows the label of 2019,
  not its own.
\<close>

theorem tooltip_mislabels_last_point:
  "snd (tooltip_formatter 7 (Some \<lparr>item_value = 7, item_payload = Some (last timeline)\<rparr>)) =
     Some (js ''Joined Leads Corporation Ltd'') \<and>
   tl_label (last timeline) \<noteq> js ''Joined Leads Corporation Ltd''"
proof -
  have "snd (tooltip_formatter 7 (Some \<lparr>item_value = 7, item_payload = Some (last timeline)\<rparr>)) =
      Some (tl_label (hd timeline))"
    by (rule tooltip_label_index_zero)
  then show ?thesis
    by (simp add: timeline_def js_def)
qed

end
