(* ===== verification/Contact.thy ===== *)
theory Contact
  imports JsString
begin

text \<open>
  The encoding part of the contact form's submit handler (lines 597--599): given the
  three field values, it percent-encodes a subject and a body with
  \<open>encodeURIComponent\<close> and builds a \<open>mailto:\<close> URL; the reads of the form through
  \<open>FormData\<close> are in \<open>ContactForm\<close>. \<open>encodeURIComponent\<close> is the specification's \<open>Encode\<close>: code
  units of the unreserved set are copied, every other code point (a surrogate pair
  read as one) is written as the \<open>%XX\<close> escapes of its UTF-8 octets, and a lone
  surrogate throws \<open>URIError\<close>. Octets are \<open>nat\<close>s, bounded by a lemma. A small
  parser of the URL's query (split at \<open>?\<close>, \<open>&\<close> and \<open>=\<close>) states what a mail
  client reads back.
\<close>

subsection \<open>\<open>encodeURIComponent\<close>\<close>

text \<open>\<open>uriAlpha\<close>, \<open>DecimalDigit\<close> and \<open>uriMark\<close> (\<open>- _ . ! ~ * ' ( )\<close>).\<close>

definition uri_unreserved :: "code_unit \<Rightarrow> bool" where
  "uri_unreserved c \<longleftrightarrow>
     (0x41 \<le> c \<and> c \<le> 0x5A) \<or> (0x61 \<le> c \<and> c \<le> 0x7A) \<or> (0x30 \<le> c \<and> c \<le> 0x39) \<or>
     c \<in> {0x2D, 0x5F, 0x2E, 0x21, 0x7E, 0x2A, 0x27, 0x28, 0x29}"

definition is_high_surrogate :: "code_unit \<Rightarrow> bool" where
  "is_high_surrogate c \<longleftrightarrow> 0xD800 \<le> c \<and> c \<le> 0xDBFF"

definition is_low_surrogate :: "code_unit \<Rightarrow> bool" where
  "is_low_surrogate c \<longleftrightarrow> 0xDC00 \<le> c \<and> c \<le> 0xDFFF"

text \<open>\<open>UTF16SurrogatePairToCodePoint\<close>.\<close>

definition surrogate_pair_code_point :: "code_unit \<Rightarrow> code_unit \<Rightarrow> nat" where
  "surrogate_pair_code_point hi lo = (unat hi - 0xD800) * 0x400 + (unat lo - 0xDC00) + 0x10000"

text \<open>The UTF-8 octets of a code point (RFC 3629, table of section 3).\<close>

definition utf8_encode :: "nat \<Rightarrow> nat list" where
  "utf8_encode cp =
     (if cp < 0x80 then [cp]
      else if cp < 0x800 then [0xC0 + cp div 0x40, 0x80 + cp mod 0x40]
      else if cp < 0x10000 then [0xE0 + cp div 0x1000, 0x80 + (cp div 0x40) mod 0x40, 0x80 + cp mod 0x40]
      else [0xF0 + cp div 0x40000, 0x80 + (cp div 0x1000) mod 0x40, 0x80 + (cp div 0x40) mod 0x40,
            0x80 + cp mod 0x40])"

text \<open>An upper-case hexadecimal digit, and the escape \<open>%XX\<close> of an octet.\<close>

definition hex_digit :: "nat \<Rightarrow> code_unit" where
  "hex_digit n = (if n < 10 then 0x30 + of_nat n else 0x41 + of_nat (n - 10))"

definition percent_byte :: "nat \<Rightarrow> jsstr" where
  "percent_byte b = [0x25, hex_digit (b div 16), hex_digit (b mod 16)]"

definition percent_encode :: "nat \<Rightarrow> jsstr" where
  "percent_encode cp = concat (map percent_byte (utf8_encode cp))"

fun encode_uri_component :: "jsstr \<Rightarrow> js_error + jsstr" where
  "encode_uri_component [] = Inr []"
| "encode_uri_component (c # cs) =
     (if uri_unreserved c then map_sum id ((#) c) (encode_uri_component cs)
      else if is_low_surrogate c then Inl URIError
      else if is_high_surrogate c then
        (case cs of
           [] \<Rightarrow> Inl URIError
         | d # ds \<Rightarrow>
             if is_low_surrogate d
             then map_sum id ((@) (percent_encode (surrogate_pair_code_point c d))) (encode_uri_component ds)
             else Inl URIError)
      else map_sum id ((@) (percent_encode (unat c))) (encode_uri_component cs))"

subsection \<open>The submit handler\<close>

text \<open>
  \<open>Portfolio Inquiry from ${name}\<close> and \<open>${message}\n\n\<emdash> ${name} (${email})\<close>,
  the dash being U+2014; the subject is encoded first.
\<close>

definition contact_subject :: "jsstr \<Rightarrow> jsstr" where
  "contact_subject name = js ''Portfolio Inquiry from '' @ name"

definition contact_body :: "jsstr \<Rightarrow> jsstr \<Rightarrow> jsstr \<Rightarrow> jsstr" where
  "contact_body name email message = message @ [0x0A, 0x0A, 0x2014, 0x20] @ name @ js '' ('' @ email @ js '')''"

definition contact_submit :: "jsstr \<Rightarrow> jsstr \<Rightarrow> jsstr \<Rightarrow> js_error + jsstr" where
  "contact_submit name email message =
     (case encode_uri_component (contact_subject name) of
        Inl e \<Rightarrow> Inl e
      | Inr subject \<Rightarrow>
          (case encode_uri_component (contact_body name email message) of
             Inl e \<Rightarrow> Inl e
           | Inr body \<Rightarrow>
               Inr (js ''mailto:youremail@example.com?subject='' @ subject @ js ''&body='' @ body)))"

subsection \<open>Specification side: well-formed UTF-16 and the query of a URL\<close>

fun utf16_well_formed :: "jsstr \<Rightarrow> bool" where
  "utf16_well_formed [] = True"
| "utf16_well_formed (c # cs) =
     (if is_high_surrogate c
      then (case cs of [] \<Rightarrow> False | d # ds \<Rightarrow> is_low_surrogate d \<and> utf16_well_formed ds)
      else \<not> is_low_surrogate c \<and> utf16_well_formed cs)"

fun split_on :: "'a \<Rightarrow> 'a list \<Rightarrow> 'a list list" where
  "split_on d [] = [[]]"
| "split_on d (x # xs) =
     (if x = d then [] # split_on d xs
      else (case split_on d xs of [] \<Rightarrow> [[x]] | w # ws \<Rightarrow> (x # w) # ws))"

definition url_query :: "jsstr \<Rightarrow> jsstr" where
  "url_query u = drop 1 (dropWhile (\<lambda>c. c \<noteq> 0x3F) u)"

definition query_params :: "jsstr \<Rightarrow> (jsstr \<times> jsstr) list" where
  "query_params u =
     map (\<lambda>p. (takeWhile (\<lambda>c. c \<noteq> 0x3D) p, drop 1 (dropWhile (\<lambda>c. c \<noteq> 0x3D) p)))
         (split_on 0x26 (url_query u))"

subsection \<open>Lemmas: octets and escapes\<close>

lemma unat_offset_unit: "a + k < 65536 \<Longrightarrow> unat (of_nat a + of_nat k :: code_unit) = a + k"
proof -
  assume "a + k < 65536"
  moreover have "(of_nat a + of_nat k :: code_unit) = of_nat (a + k)"
    by simp
  ultimately show ?thesis
    by (simp only: unat_of_nat mod_less) simp
qed

lemma hex_digit_unreserved: "n < 16 \<Longrightarrow> uri_unreserved (hex_digit n)"
proof -
  assume "n < 16"
  show ?thesis
  proof (cases "n < 10")
    case True
    have "unat (of_nat 0x30 + of_nat n :: code_unit) = 0x30 + n"
      using True by (intro unat_offset_unit) simp
    with True show ?thesis
      by (simp add: hex_digit_def uri_unreserved_def word_le_nat_alt)
  next
    case False
    have "unat (of_nat 0x41 + of_nat (n - 10) :: code_unit) = 0x41 + (n - 10)"
      using \<open>n < 16\<close> by (intro unat_offset_unit) simp
    with False \<open>n < 16\<close> show ?thesis
      by (simp add: hex_digit_def uri_unreserved_def word_le_nat_alt)
  qed
qed

lemma utf8_encode_octets: "cp < 0x110000 \<Longrightarrow> \<forall>b \<in> set (utf8_encode cp). b < 256"
  by (auto simp: utf8_encode_def div_less_iff_less_mult)

lemma percent_byte_safe: "b < 256 \<Longrightarrow> list_all (\<lambda>c. uri_unreserved c \<or> c = 0x25) (percent_byte b)"
  by (simp add: percent_byte_def hex_digit_unreserved)

lemma percent_encode_safe:
  "cp < 0x110000 \<Longrightarrow> list_all (\<lambda>c. uri_unreserved c \<or> c = 0x25) (percent_encode cp)"
  using utf8_encode_octets [of cp] percent_byte_safe
  by (auto simp: percent_encode_def list_all_iff)

lemma surrogate_pair_code_point_bound:
  "is_high_surrogate hi \<Longrightarrow> is_low_surrogate lo \<Longrightarrow> surrogate_pair_code_point hi lo < 0x110000"
proof -
  assume "is_high_surrogate hi" "is_low_surrogate lo"
  then have h: "unat hi - 0xD800 \<le> 1023" and l: "unat lo - 0xDC00 \<le> 1023"
    by (auto simp: is_high_surrogate_def is_low_surrogate_def word_le_nat_alt)
  from h have "(unat hi - 0xD800) * 0x400 \<le> 1023 * 0x400"
    by (rule mult_right_mono) simp
  with l show ?thesis
    by (simp add: surrogate_pair_code_point_def)
qed

lemma unit_code_point_bound: "unat (c :: code_unit) < 0x110000"
proof -
  have "unat c < 2 ^ LENGTH(16)"
    by (rule unsigned_less)
  then show ?thesis
    by simp
qed

lemma uri_unreserved_not_surrogate:
  "uri_unreserved c \<Longrightarrow> \<not> is_high_surrogate c \<and> \<not> is_low_surrogate c"
  by (auto simp: uri_unreserved_def is_high_surrogate_def is_low_surrogate_def word_le_nat_alt)

subsection \<open>Lemmas: the encoder\<close>

lemma encode_uri_component_safe:
  "encode_uri_component s = Inr r \<Longrightarrow> list_all (\<lambda>c. uri_unreserved c \<or> c = 0x25) r"
proof (induction s arbitrary: r rule: encode_uri_component.induct)
  case 1
  then show ?case by simp
next
  case (2 c cs)
  show ?case
  proof (cases "uri_unreserved c")
    case True
    with "2.prems" "2.IH"(1) show ?thesis
      by (auto simp: map_sum_def split: sum.splits)
  next
    case nu: False
    show ?thesis
    proof (cases "is_low_surrogate c")
      case True
      with nu "2.prems" show ?thesis by simp
    next
      case nl: False
      show ?thesis
      proof (cases "is_high_surrogate c")
        case hi: True
        then obtain d ds where cs: "cs = d # ds" and lo: "is_low_surrogate d"
          using nu nl "2.prems" by (auto split: list.splits if_splits)
        with hi nu nl "2.prems" obtain r' where "encode_uri_component ds = Inr r'"
          and r: "r = percent_encode (surrogate_pair_code_point c d) @ r'"
          by (auto simp: map_sum_def split: sum.splits)
        with "2.IH"(2) [OF nu nl hi cs] lo have "list_all (\<lambda>c. uri_unreserved c \<or> c = 0x25) r'"
          by simp
        moreover have "list_all (\<lambda>c. uri_unreserved c \<or> c = 0x25) (percent_encode (surrogate_pair_code_point c d))"
          by (rule percent_encode_safe [OF surrogate_pair_code_point_bound [OF hi lo]])
        ultimately show ?thesis
          by (simp add: r)
      next
        case nh: False
        with nu nl "2.prems" obtain r' where "encode_uri_component cs = Inr r'"
          and r: "r = percent_encode (unat c) @ r'"
          by (auto simp: map_sum_def split: sum.splits)
        with "2.IH"(3) [OF nu nl nh] have "list_all (\<lambda>c. uri_unreserved c \<or> c = 0x25) r'"
          by simp
        with percent_encode_safe [OF unit_code_point_bound [of c]] show ?thesis
          by (simp add: r)
      qed
    qed
  qed
qed

lemma encode_uri_component_Inl: "encode_uri_component s = Inl e \<Longrightarrow> e = URIError"
proof (induction s rule: encode_uri_component.induct)
  case 1
  then show ?case by simp
next
  case (2 c cs)
  show ?case
  proof (cases cs)
    case Nil
    with "2.prems" show ?thesis
      by (auto simp: map_sum_def split: if_splits)
  next
    case (Cons d ds)
    with "2.prems" "2.IH" show ?thesis
      by (auto simp: map_sum_def split: if_splits sum.splits)
  qed
qed

lemma low_not_high_surrogate: "is_low_surrogate c \<Longrightarrow> \<not> is_high_surrogate c"
  by (auto simp: is_high_surrogate_def is_low_surrogate_def word_le_nat_alt)

lemma map_sum_Inr_ex: "(\<exists>r. map_sum id f x = Inr r) \<longleftrightarrow> (\<exists>r. x = Inr r)"
  by (cases x) auto

lemma encode_uri_component_Inr_iff:
  "(\<exists>r. encode_uri_component s = Inr r) \<longleftrightarrow> utf16_well_formed s"
proof (induction s rule: encode_uri_component.induct)
  case 1
  then show ?case by simp
next
  case (2 c cs)
  show ?case
  proof (cases "uri_unreserved c")
    case True
    with "2.IH"(1) show ?thesis
      by (simp add: map_sum_Inr_ex uri_unreserved_not_surrogate)
  next
    case nu: False
    show ?thesis
    proof (cases "is_low_surrogate c")
      case True
      with nu low_not_high_surrogate [OF True] show ?thesis
        by simp
    next
      case nl: False
      show ?thesis
      proof (cases "is_high_surrogate c")
        case hi: True
        show ?thesis
        proof (cases cs)
          case Nil
          with nu nl hi show ?thesis by simp
        next
          case (Cons d ds)
          with nu nl hi "2.IH"(2) [OF nu nl hi Cons] show ?thesis
            by (simp add: map_sum_Inr_ex)
        qed
      next
        case nh: False
        with nu nl "2.IH"(3) [OF nu nl nh] show ?thesis
          by (simp add: map_sum_Inr_ex)
      qed
    qed
  qed
qed

subsection \<open>Lemmas: the query\<close>

lemma split_on_no_sep: "d \<notin> set xs \<Longrightarrow> split_on d xs = [xs]"
  by (induction xs) auto

lemma split_on_append_sep: "d \<notin> set xs \<Longrightarrow> split_on d (xs @ d # ys) = xs # split_on d ys"
  by (induction xs) (auto split: list.splits)

lemma safe_no_separators:
  "list_all (\<lambda>c. uri_unreserved c \<or> c = 0x25) r \<Longrightarrow> 0x26 \<notin> set r \<and> 0x3D \<notin> set r"
  by (auto simp: list_all_iff uri_unreserved_def)

lemma query_params_mailto:
  "0x26 \<notin> set subject \<Longrightarrow> 0x3D \<notin> set subject \<Longrightarrow> 0x26 \<notin> set body \<Longrightarrow> 0x3D \<notin> set body \<Longrightarrow>
     query_params (js ''mailto:youremail@example.com?subject='' @ subject @ js ''&body='' @ body) =
       [(js ''subject'', subject), (js ''body'', body)]"
  by (simp add: js_def query_params_def url_query_def split_on_append_sep split_on_no_sep)

lemma contact_submit_Inr:
  assumes "contact_submit name email message = Inr h"
  obtains subject body where "encode_uri_component (contact_subject name) = Inr subject"
    and "encode_uri_component (contact_body name email message) = Inr body"
    and "h = js ''mailto:youremail@example.com?subject='' @ subject @ js ''&body='' @ body"
  using assms by (auto simp: contact_submit_def split: sum.splits)

lemma wf_append_plain:
  "list_all (\<lambda>c. \<not> is_high_surrogate c \<and> \<not> is_low_surrogate c) a \<Longrightarrow>
     utf16_well_formed (a @ b) = utf16_well_formed b"
  by (induction a) auto

lemmas encode_eval = js_def uri_unreserved_def is_low_surrogate_def is_high_surrogate_def
  percent_encode_def utf8_encode_def percent_byte_def hex_digit_def surrogate_pair_code_point_def

lemma contact_submit_Ann:
  "contact_submit (js ''Ann'') (js ''a@b.c'') (js ''Hi'') =
     Inr (js ''mailto:youremail@example.com?subject=Portfolio%20Inquiry%20from%20Ann&body=Hi%0A%0A%E2%80%94%20Ann%20(a%40b.c)'')"
  by (simp add: contact_submit_def contact_subject_def contact_body_def encode_eval)

subsection \<open>Properties\<close>

text \<open>
  C3. Whatever the visitor types, the link the form opens goes to the fixed address
  and its query holds exactly two parameters, \<open>subject\<close> and \<open>body\<close>, whose values
  are the encodings of the composed subject and body: no field can add, split or
  rename a parameter.
\<close>

theorem contact_mailto_params:
  "contact_submit name email message = Inr h \<Longrightarrow>
     \<exists>subject body.
        encode_uri_component (contact_subject name) = Inr subject \<and>
        encode_uri_component (contact_body name email message) = Inr body \<and>
        takeWhile (\<lambda>c. c \<noteq> 0x3F) h = js ''mailto:youremail@example.com'' \<and>
        query_params h = [(js ''subject'', subject), (js ''body'', body)]"
proof -
  assume "contact_submit name email message = Inr h"
  then obtain subject body where s: "encode_uri_component (contact_subject name) = Inr subject"
    and b: "encode_uri_component (contact_body name email message) = Inr body"
    and h: "h = js ''mailto:youremail@example.com?subject='' @ subject @ js ''&body='' @ body"
    by (rule contact_submit_Inr)
  from s have ns: "0x26 \<notin> set subject" "0x3D \<notin> set subject"
    using encode_uri_component_safe safe_no_separators by blast+
  from b have nb: "0x26 \<notin> set body" "0x3D \<notin> set body"
    using encode_uri_component_safe safe_no_separators by blast+
  have "takeWhile (\<lambda>c. c \<noteq> 0x3F) h = js ''mailto:youremail@example.com''"
    by (simp add: h js_def)
  moreover have "query_params h = [(js ''subject'', subject), (js ''body'', body)]"
    using ns nb by (simp add: h query_params_mailto)
  ultimately show ?thesis
    using s b by blast
qed

theorem contact_mailto_params_witness:
  "\<exists>subject body.
     encode_uri_component (contact_subject (js ''Ann'')) = Inr subject \<and>
     encode_uri_component (contact_body (js ''Ann'') (js ''a@b.c'') (js ''Hi'')) = Inr body \<and>
     takeWhile (\<lambda>c. c \<noteq> 0x3F)
       (js ''mailto:youremail@example.com?subject=Portfolio%20Inquiry%20from%20Ann&body=Hi%0A%0A%E2%80%94%20Ann%20(a%40b.c)'') =
       js ''mailto:youremail@example.com'' \<and>
     query_params
       (js ''mailto:youremail@example.com?subject=Portfolio%20Inquiry%20from%20Ann&body=Hi%0A%0A%E2%80%94%20Ann%20(a%40b.c)'') =
       [(js ''subject'', subject), (js ''body'', body)]"
  by (rule contact_mailto_params [OF contact_submit_Ann])

text \<open>
  The handler throws (a \<open>URIError\<close> from \<open>encodeURIComponent\<close>) exactly when the
  name or the composed body holds a lone surrogate; otherwise a link is produced.
\<close>

lemma contact_submit_total_iff:
  "(\<exists>h. contact_submit name email message = Inr h) \<longleftrightarrow>
     utf16_well_formed name \<and> utf16_well_formed (contact_body name email message)"
proof -
  have "list_all (\<lambda>c. \<not> is_high_surrogate c \<and> \<not> is_low_surrogate c) (js ''Portfolio Inquiry from '')"
    by (simp add: js_def is_high_surrogate_def is_low_surrogate_def)
  then have "utf16_well_formed (contact_subject name) = utf16_well_formed name"
    by (simp add: contact_subject_def wf_append_plain)
  then show ?thesis
    using encode_uri_component_Inr_iff [of "contact_subject name"]
          encode_uri_component_Inr_iff [of "contact_body name email message"]
    by (auto simp: contact_submit_def split: sum.splits)
qed

end
