(* ===== verification/UriDecode.thy ===== *)
theory UriDecode
  imports Contact
begin

text \<open>
  The reading side of the contact link. The mail client that opens the \<open>mailto:\<close>
  URL built by the submit handler splits its query (\<open>query_params\<close> of
  \<open>Contact\<close>) and percent-decodes each value; this theory models that decoding
  as ECMAScript's \<open>decodeURIComponent\<close> (the specification's \<open>Decode\<close>), proves
  that it inverts \<open>encodeURIComponent\<close> on every well-formed string, and composes
  the two to show that the client reads back exactly the subject and body the
  handler composed. The decoder is specification-side: no code of the repository
  decodes a URI.
\<close>

subsection \<open>The decoder\<close>

text \<open>A hexadecimal digit of either case, and the octet of an escape \<open>%XY\<close>.\<close>

definition hex_val :: "code_unit \<Rightarrow> nat option" where
  "hex_val c =
     (if 0x30 \<le> c \<and> c \<le> 0x39 then Some (unat c - 0x30)
      else if 0x41 \<le> c \<and> c \<le> 0x46 then Some (unat c - 0x37)
      else if 0x61 \<le> c \<and> c \<le> 0x66 then Some (unat c - 0x57)
      else None)"

definition hex_escape :: "jsstr \<Rightarrow> nat option" where
  "hex_escape s =
     (case s of
        p # h # l # _ \<Rightarrow>
          if p = 0x25 then
            (case (hex_val h, hex_val l) of (Some a, Some b) \<Rightarrow> Some (16 * a + b) | _ \<Rightarrow> None)
          else None
      | _ \<Rightarrow> None)"

text \<open>
  The number of octets announced by a lead octet (its leading one bits); \<open>0\<close> for a
  continuation octet \<open>10xxxxxx\<close> or a lead of five or more ones, which
  \<open>Decode\<close> rejects.
\<close>

definition utf8_lead_len :: "nat \<Rightarrow> nat" where
  "utf8_lead_len b =
     (if b < 0x80 then 1 else if b < 0xC0 then 0 else if b < 0xE0 then 2
      else if b < 0xF0 then 3 else if b < 0xF8 then 4 else 0)"

text \<open>The \<open>n\<close> escapes after a lead octet, each a continuation octet.\<close>

fun cont_octets :: "nat \<Rightarrow> jsstr \<Rightarrow> nat list option" where
  "cont_octets 0 s = Some []"
| "cont_octets (Suc n) s =
     (case hex_escape s of
        None \<Rightarrow> None
      | Some b \<Rightarrow> if b div 0x40 = 2 then map_option ((#) b) (cont_octets n (drop 3 s)) else None)"

text \<open>
  The UTF-8 transformation of a complete octet sequence, rejecting overlong forms,
  surrogate code points and values above U+10FFFF (RFC 3629, section 3).
\<close>

fun utf8_decode :: "nat list \<Rightarrow> nat option" where
  "utf8_decode [b] = (if b < 0x80 then Some b else None)"
| "utf8_decode [b1, b2] =
     (let cp = (b1 - 0xC0) * 0x40 + (b2 - 0x80) in if 0x80 \<le> cp then Some cp else None)"
| "utf8_decode [b1, b2, b3] =
     (let cp = (b1 - 0xE0) * 0x1000 + (b2 - 0x80) * 0x40 + (b3 - 0x80) in
      if 0x800 \<le> cp \<and> \<not> (0xD800 \<le> cp \<and> cp \<le> 0xDFFF) then Some cp else None)"
| "utf8_decode [b1, b2, b3, b4] =
     (let cp = (b1 - 0xF0) * 0x40000 + (b2 - 0x80) * 0x1000 + (b3 - 0x80) * 0x40 + (b4 - 0x80) in
      if 0x10000 \<le> cp \<and> cp < 0x110000 then Some cp else None)"
| "utf8_decode _ = None"

text \<open>\<open>UTF16EncodeCodePoint\<close>.\<close>

definition utf16_encode_cp :: "nat \<Rightarrow> jsstr" where
  "utf16_encode_cp cp =
     (if cp < 0x10000 then [of_nat cp]
      else [of_nat (0xD800 + (cp - 0x10000) div 0x400), of_nat (0xDC00 + (cp - 0x10000) mod 0x400)])"

text \<open>
  \<open>decodeURIComponent\<close>, that is \<open>Decode\<close> with an empty reserved set: a unit other
  than \<open>%\<close> is copied, an escape of an octet below 0x80 is that unit, and a lead
  octet with its continuation escapes is one code point written back as one or two
  code units. A truncated or malformed escape, a bad lead or continuation octet and
  an invalid UTF-8 sequence all throw \<open>URIError\<close>. The recursion is on the
  remaining input, which every branch shortens.
\<close>

fun decode_uri_component :: "jsstr \<Rightarrow> js_error + jsstr" where
  "decode_uri_component [] = Inr []"
| "decode_uri_component (c # cs) =
     (if c \<noteq> 0x25 then map_sum id ((#) c) (decode_uri_component cs)
      else
        (case hex_escape (c # cs) of
           None \<Rightarrow> Inl URIError
         | Some b \<Rightarrow>
             if b < 0x80 then map_sum id ((#) (of_nat b)) (decode_uri_component (drop 2 cs))
             else if utf8_lead_len b = 0 then Inl URIError
             else
               (case cont_octets (utf8_lead_len b - 1) (drop 2 cs) of
                  None \<Rightarrow> Inl URIError
                | Some bs \<Rightarrow>
                    (case utf8_decode (b # bs) of
                       None \<Rightarrow> Inl URIError
                     | Some cp \<Rightarrow>
                         map_sum id ((@) (utf16_encode_cp cp))
                           (decode_uri_component (drop (3 * (utf8_lead_len b - 1)) (drop 2 cs)))))))"

subsection \<open>Lemmas: escapes and octets\<close>

lemma hex_val_hex_digit: "n < 16 \<Longrightarrow> hex_val (hex_digit n) = Some n"
proof (cases "n < 10")
  case True
  have "unat (of_nat 0x30 + of_nat n :: code_unit) = 0x30 + n"
    using True by (intro unat_offset_unit) simp
  with True show ?thesis
    by (simp add: hex_digit_def hex_val_def word_le_nat_alt)
next
  case False
  assume "n < 16"
  have "unat (of_nat 0x41 + of_nat (n - 10) :: code_unit) = 0x41 + (n - 10)"
    using \<open>n < 16\<close> by (intro unat_offset_unit) simp
  with False \<open>n < 16\<close> show ?thesis
    by (simp add: hex_digit_def hex_val_def word_le_nat_alt)
qed

lemma hex_escape_percent_byte: "b < 256 \<Longrightarrow> hex_escape (percent_byte b @ r) = Some b"
  by (simp add: hex_escape_def percent_byte_def hex_val_hex_digit)

lemma length_percent_byte [simp]: "length (percent_byte b) = 3"
  by (simp add: percent_byte_def)

lemma cont_octets_percent:
  "\<forall>b \<in> set bs. b div 0x40 = 2 \<Longrightarrow>
     cont_octets (length bs) (concat (map percent_byte bs) @ r) = Some bs"
proof (induction bs)
  case Nil
  then show ?case by simp
next
  case (Cons b bs)
  then have "b < 256" by auto
  with Cons show ?case
    by (simp add: hex_escape_percent_byte)
qed

lemma length_concat_percent [simp]: "length (concat (map percent_byte bs)) = 3 * length bs"
  by (induction bs) simp_all

lemma cont_octet_div: "(0x80 + x mod 0x40) div 0x40 = (2 :: nat)"
  by (simp add: div_add1_eq)

lemma utf8_encode_cont: "\<forall>c \<in> set (tl (utf8_encode cp)). c div 0x40 = 2"
  by (simp add: utf8_encode_def cont_octet_div)

lemma utf8_encode_lead:
  "0x80 \<le> cp \<Longrightarrow> cp < 0x110000 \<Longrightarrow>
     0x80 \<le> hd (utf8_encode cp) \<and> utf8_lead_len (hd (utf8_encode cp)) = length (utf8_encode cp)"
  by (auto simp: utf8_encode_def utf8_lead_len_def div_less_iff_less_mult less_eq_div_iff_mult_less_eq)

lemma utf8_decode_encode:
  "cp < 0x110000 \<Longrightarrow> \<not> (0xD800 \<le> cp \<and> cp \<le> 0xDFFF) \<Longrightarrow>
     utf8_decode (utf8_encode cp) = Some cp"
proof -
  assume "cp < 0x110000" "\<not> (0xD800 \<le> cp \<and> cp \<le> 0xDFFF)"
  have d2: "cp div 0x40 * 0x40 + cp mod 0x40 = cp"
    by simp
  have d3: "cp div 0x1000 * 0x1000 + cp div 0x40 mod 0x40 * 0x40 + cp mod 0x40 = cp"
    using mod_mult2_eq [of cp 64 64] div_mult_mod_eq [of cp 4096] by simp
  have d4: "cp div 0x40000 * 0x40000 + cp div 0x1000 mod 0x40 * 0x1000 + cp div 0x40 mod 0x40 * 0x40 +
            cp mod 0x40 = cp"
    using mod_mult2_eq [of cp 4096 64] mod_mult2_eq [of cp 64 64] div_mult_mod_eq [of cp 262144] by simp
  consider "cp < 0x80" | "0x80 \<le> cp" "cp < 0x800" | "0x800 \<le> cp" "cp < 0x10000" | "0x10000 \<le> cp"
    by linarith
  then show ?thesis
  proof cases
    case 1
    then show ?thesis by (simp add: utf8_encode_def)
  next
    case 2
    then show ?thesis by (simp add: utf8_encode_def Let_def d2)
  next
    case 3
    then show ?thesis using d3 \<open>\<not> (0xD800 \<le> cp \<and> cp \<le> 0xDFFF)\<close> by (simp add: utf8_encode_def Let_def)
  next
    case 4
    then show ?thesis using d4 \<open>cp < 0x110000\<close> by (simp add: utf8_encode_def Let_def)
  qed
qed

subsection \<open>Lemmas: decoding what the encoder wrote\<close>

lemma decode_percent_byte:
  assumes "b < 256"
  shows "decode_uri_component (percent_byte b @ r) =
    (if b < 0x80 then map_sum id ((#) (of_nat b)) (decode_uri_component r)
     else if utf8_lead_len b = 0 then Inl URIError
     else
       (case cont_octets (utf8_lead_len b - 1) r of
          None \<Rightarrow> Inl URIError
        | Some bs \<Rightarrow>
            (case utf8_decode (b # bs) of
               None \<Rightarrow> Inl URIError
             | Some cp \<Rightarrow>
                 map_sum id ((@) (utf16_encode_cp cp))
                   (decode_uri_component (drop (3 * (utf8_lead_len b - 1)) r)))))"
proof -
  have pb: "percent_byte b @ r = 0x25 # (hex_digit (b div 16) # hex_digit (b mod 16) # r)"
    by (simp add: percent_byte_def)
  have "hex_escape (percent_byte b @ r) = Some b"
    using assms by (rule hex_escape_percent_byte)
  then have "hex_escape (0x25 # (hex_digit (b div 16) # hex_digit (b mod 16) # r)) = Some b"
    by (simp only: pb)
  then show ?thesis
    unfolding pb by (subst decode_uri_component.simps(2)) (simp split: option.split)
qed

lemma utf16_encode_unit: "utf16_encode_cp (unat c) = [c]"
proof -
  have "unat c < 2 ^ LENGTH(16)"
    by (rule unsigned_less)
  then show ?thesis by (simp add: utf16_encode_cp_def)
qed

lemma decode_percent_encode:
  assumes "cp < 0x110000" "\<not> (0xD800 \<le> cp \<and> cp \<le> 0xDFFF)"
  shows "decode_uri_component (percent_encode cp @ r) =
           map_sum id ((@) (utf16_encode_cp cp)) (decode_uri_component r)"
proof -
  obtain b cs where e: "utf8_encode cp = b # cs"
    by (cases "utf8_encode cp") (simp_all add: utf8_encode_def split: if_splits)
  then have "b < 256"
    using utf8_encode_octets [OF assms(1)] by simp
  have pe: "percent_encode cp @ r = percent_byte b @ (concat (map percent_byte cs) @ r)"
    by (simp add: percent_encode_def e)
  show ?thesis
  proof (cases "cp < 0x80")
    case True
    with e have "b = cp" "cs = []" by (simp_all add: utf8_encode_def)
    moreover have "((@) [c]) = ((#) c)" for c :: code_unit
      by auto
    ultimately show ?thesis
      using True by (simp add: pe decode_percent_byte utf16_encode_cp_def)
  next
    case False
    with e utf8_encode_lead [of cp] assms(1) have b: "0x80 \<le> b" "utf8_lead_len b = Suc (length cs)"
      by simp_all
    have "cont_octets (length cs) (concat (map percent_byte cs) @ r) = Some cs"
      using utf8_encode_cont [of cp] e by (intro cont_octets_percent) simp
    moreover have "utf8_decode (b # cs) = Some cp"
      using utf8_decode_encode [OF assms] e by simp
    ultimately show ?thesis
      using b \<open>b < 256\<close> by (simp add: pe decode_percent_byte)
  qed
qed

lemma surrogate_pair_utf16:
  assumes "is_high_surrogate hi" "is_low_surrogate lo"
  shows "0x10000 \<le> surrogate_pair_code_point hi lo \<and>
         utf16_encode_cp (surrogate_pair_code_point hi lo) = [hi, lo]"
proof -
  define x where "x = unat hi - 0xD800"
  define y where "y = unat lo - 0xDC00"
  from assms have hx: "0xD800 + x = unat hi" and hy: "0xDC00 + y = unat lo" and "y < 0x400"
    by (auto simp: is_high_surrogate_def is_low_surrogate_def word_le_nat_alt x_def y_def)
  have cp: "surrogate_pair_code_point hi lo = x * 0x400 + y + 0x10000"
    by (simp add: surrogate_pair_code_point_def x_def y_def)
  have "utf16_encode_cp (x * 0x400 + y + 0x10000) = [of_nat (0xD800 + x), of_nat (0xDC00 + y)]"
    using \<open>y < 0x400\<close> by (simp add: utf16_encode_cp_def)
  then have "utf16_encode_cp (surrogate_pair_code_point hi lo) = [hi, lo]"
    by (simp only: cp hx hy) simp
  then show ?thesis
    by (simp add: cp)
qed

lemma unreserved_not_percent: "uri_unreserved c \<Longrightarrow> c \<noteq> 0x25"
  by (auto simp: uri_unreserved_def)

lemma plain_unit_not_surrogate_cp:
  "\<not> is_high_surrogate c \<Longrightarrow> \<not> is_low_surrogate c \<Longrightarrow> \<not> (0xD800 \<le> unat c \<and> unat c \<le> 0xDFFF)"
  by (auto simp: is_high_surrogate_def is_low_surrogate_def word_le_nat_alt)

lemma decode_encode_uri_component:
  "encode_uri_component s = Inr r \<Longrightarrow> decode_uri_component r = Inr s"
proof (induction s arbitrary: r rule: encode_uri_component.induct)
  case 1
  then show ?case by simp
next
  case (2 c cs)
  show ?case
  proof (cases "uri_unreserved c")
    case True
    with "2.prems" "2.IH"(1) show ?thesis
      by (auto simp: map_sum_def unreserved_not_percent split: sum.splits)
  next
    case nu: False
    show ?thesis
    proof (cases "is_low_surrogate c")
      case True
      with nu "2.prems" show ?thesis by simp
    next
      case nl: False
      show ?thesis
      proof (cases "is_high_surrogate c")
        case hi: True
        then obtain d ds where cs: "cs = d # ds" and lo: "is_low_surrogate d"
          using nu nl "2.prems" by (auto split: list.splits if_splits)
        with hi nu nl "2.prems" obtain r' where e: "encode_uri_component ds = Inr r'"
          and r: "r = percent_encode (surrogate_pair_code_point c d) @ r'"
          by (auto simp: map_sum_def split: sum.splits)
        from "2.IH"(2) [OF nu nl hi cs] lo e have "decode_uri_component r' = Inr ds"
          by simp
        with surrogate_pair_utf16 [OF hi lo] surrogate_pair_code_point_bound [OF hi lo] show ?thesis
          by (simp add: r cs decode_percent_encode)
      next
        case nh: False
        with nu nl "2.prems" obtain r' where e: "encode_uri_component cs = Inr r'"
          and r: "r = percent_encode (unat c) @ r'"
          by (auto simp: map_sum_def split: sum.splits)
        with "2.IH"(3) [OF nu nl nh] have "decode_uri_component r' = Inr cs"
          by simp
        with plain_unit_not_surrogate_cp [OF nh nl] unit_code_point_bound [of c] show ?thesis
          by (simp add: r decode_percent_encode utf16_encode_unit)
      qed
    qed
  qed
qed


subsection \<open>Properties\<close>

text \<open>
  C12. End to end, a successful submission opens a link whose two query parameters
  decode to exactly the composed subject \<open>Portfolio Inquiry from ${name}\<close> and the
  composed body: whatever the visitor types (\<open>&\<close>, \<open>=\<close>, \<open>%\<close>, line feeds, emoji),
  the mail client reads the fields unchanged.
\<close>

theorem contact_link_decodes_to_fields:
  "contact_submit name email message = Inr h \<Longrightarrow>
     map (\<lambda>(k, v). (k, decode_uri_component v)) (query_params h) =
       [(js ''subject'', Inr (contact_subject name)), (js ''body'', Inr (contact_body name email message))]"
proof -
  assume "contact_submit name email message = Inr h"
  then obtain subject body where s: "encode_uri_component (contact_subject name) = Inr subject"
    and b: "encode_uri_component (contact_body name email message) = Inr body"
    and h: "h = js ''mailto:youremail@example.com?subject='' @ subject @ js ''&body='' @ body"
    by (rule contact_submit_Inr)
  from s b have "0x26 \<notin> set subject" "0x3D \<notin> set subject" "0x26 \<notin> set body" "0x3D \<notin> set body"
    using encode_uri_component_safe safe_no_separators by blast+
  then have "query_params h = [(js ''subject'', subject), (js ''body'', body)]"
    by (simp add: h query_params_mailto)
  with s b show ?thesis
    by (simp add: decode_encode_uri_component)
qed

theorem contact_link_decodes_to_fields_witness:
  "map (\<lambda>(k, v). (k, decode_uri_component v))
     (query_params
       (js ''mailto:youremail@example.com?subject=Portfolio%20Inquiry%20from%20Ann&body=Hi%0A%0A%E2%80%94%20Ann%20(a%40b.c)'')) =
   [(js ''subject'', Inr (contact_subject (js ''Ann''))),
    (js ''body'', Inr (contact_body (js ''Ann'') (js ''a@b.c'') (js ''Hi'')))]"
  by (rule contact_link_decodes_to_fields [OF contact_submit_Ann])

end
