(* ===== verification/UiPrimitives.thy ===== *)
theory UiPrimitives
  imports JsString
begin

text \<open>
  The design-system primitives under \<open>src/src/components/ui/\<close>: each renders one
  element whose \<open>className\<close> is a base class list joined with the caller's
  \<open>className\<close>. \<open>Card\<close>, \<open>CardHeader\<close>, \<open>CardContent\<close>, \<open>CardTitle\<close> and \<open>Badge\<close>
  join with a space and \<open>trim()\<close>; \<open>Input\<close> and \<open>Textarea\<close> append their base to
  \<open>className || ''\<close>; \<open>Button\<close> with \<open>asChild\<close> clones its child element, merging
  the two class names and passing its remaining props over the child's. An element is
  a tag, an optional \<open>className\<close> and its other props as an association list.
\<close>

subsection \<open>\<open>String.prototype.trim\<close>\<close>

text \<open>
  \<open>WhiteSpace\<close> (tab, vertical tab, form feed, space, no-break space, zero-width
  no-break space and the space separators of Unicode category Zs) and
  \<open>LineTerminator\<close> (line feed, carriage return, U+2028, U+2029).
\<close>

definition js_whitespace :: "code_unit \<Rightarrow> bool" where
  "js_whitespace c \<longleftrightarrow>
     c \<in> {0x09, 0x0A, 0x0B, 0x0C, 0x0D, 0x20, 0xA0, 0x1680, 0x2028, 0x2029, 0x202F, 0x205F, 0x3000, 0xFEFF} \<or>
     (0x2000 \<le> c \<and> c \<le> 0x200A)"

definition js_trim :: "jsstr \<Rightarrow> jsstr" where
  "js_trim s = rev (dropWhile js_whitespace (rev (dropWhile js_whitespace s)))"

text \<open>A string with no white space at either end: what \<open>trim\<close> leaves unchanged.\<close>

definition no_edge_ws :: "jsstr \<Rightarrow> bool" where
  "no_edge_ws s \<longleftrightarrow> s = [] \<or> (\<not> js_whitespace (hd s) \<and> \<not> js_whitespace (last s))"

text \<open>\<open>String.prototype.trimEnd\<close>, used to state what \<open>trim\<close> leaves of a class.\<close>

definition trim_end :: "jsstr \<Rightarrow> jsstr" where
  "trim_end s = rev (dropWhile js_whitespace (rev s))"

subsection \<open>Elements and the primitives\<close>

record element =
  el_tag :: jsstr
  el_class :: "jsstr option" \<comment> \<open>\<open>None\<close>: no \<open>className\<close> prop\<close>
  el_props :: "(jsstr \<times> jsstr) list"

text \<open>\<open>`${base} ${className}`.trim()\<close>, shared by the cards and the badge.\<close>

definition join_trim :: "jsstr \<Rightarrow> jsstr \<Rightarrow> jsstr" where
  "join_trim base cls = js_trim (base @ js '' '' @ cls)"

definition card_class :: "jsstr \<Rightarrow> jsstr" where
  "card_class cls = join_trim (js ''bg-white/5 rounded-lg p-0'') cls"

definition card_header_class :: "jsstr \<Rightarrow> jsstr" where
  "card_header_class cls = join_trim (js ''px-4 py-3 border-b'') cls"

definition card_content_class :: "jsstr \<Rightarrow> jsstr" where
  "card_content_class cls = join_trim (js ''p-4'') cls"

definition card_title_class :: "jsstr \<Rightarrow> jsstr" where
  "card_title_class cls = join_trim (js ''text-lg font-semibold'') cls"

definition badge_class :: "jsstr \<Rightarrow> jsstr" where
  "badge_class cls = join_trim (js ''inline-flex items-center rounded-full px-2 py-1 text-xs bg-white/5'') cls"

text \<open>\<open>(props.className||'') + ' rounded-md border px-3 py-2 bg-transparent'\<close>.\<close>

definition field_class :: "jsstr option \<Rightarrow> jsstr" where
  "field_class cls = (case cls of None \<Rightarrow> [] | Some c \<Rightarrow> c) @ js '' rounded-md border px-3 py-2 bg-transparent''"

text \<open>
  \<open>Input\<close> and \<open>Textarea\<close>: the element with the caller's other props and the class
  above, which is written after the spread and so replaces the caller's \<open>className\<close>.
\<close>

definition field :: "jsstr \<Rightarrow> (jsstr \<times> jsstr) list \<Rightarrow> jsstr option \<Rightarrow> element" where
  "field tag props cls = \<lparr>el_tag = tag, el_class = Some (field_class cls), el_props = props\<rparr>"

definition input :: "(jsstr \<times> jsstr) list \<Rightarrow> jsstr option \<Rightarrow> element" where
  "input = field (js ''input'')"

definition textarea :: "(jsstr \<times> jsstr) list \<Rightarrow> jsstr option \<Rightarrow> element" where
  "textarea = field (js ''textarea'')"

text \<open>
  \<open>React.cloneElement(child, config)\<close>: the props of \<open>config\<close> replace those of the
  child with the same name, and the child keeps the others.
\<close>

definition merge_props :: "(jsstr \<times> jsstr) list \<Rightarrow> (jsstr \<times> jsstr) list \<Rightarrow> (jsstr \<times> jsstr) list" where
  "merge_props old new = new @ filter (\<lambda>(k, v). k \<notin> fst ` set new) old"

text \<open>
  \<open>Button\<close>: with \<open>asChild\<close> and an element child, the child cloned with the class
  \<open>`${className} ${children.props.className || ''}`.trim()\<close> and the remaining props;
  otherwise a \<open><button>\<close> carrying \<open>className\<close> and the props. A child that is not
  an element is \<open>None\<close>.
\<close>

definition button :: "bool \<Rightarrow> element option \<Rightarrow> jsstr \<Rightarrow> (jsstr \<times> jsstr) list \<Rightarrow> element" where
  "button as_child child cls props =
     (case child of
        Some ch \<Rightarrow>
          if as_child then
            ch\<lparr>el_class := Some (join_trim cls (case el_class ch of None \<Rightarrow> [] | Some c \<Rightarrow> c)),
               el_props := merge_props (el_props ch) props\<rparr>
          else \<lparr>el_tag = js ''button'', el_class = Some cls, el_props = props\<rparr>
      | None \<Rightarrow> \<lparr>el_tag = js ''button'', el_class = Some cls, el_props = props\<rparr>)"

subsection \<open>Lemmas\<close>

lemma dropWhile_hd_not: "xs \<noteq> [] \<Longrightarrow> \<not> P (hd xs) \<Longrightarrow> dropWhile P xs = xs"
  by (cases xs) auto

text \<open>
  \<open>`${base} ${cls}`.trim()\<close> for a base with no white space at its ends: the base
  alone when the caller's class is only white space (or empty), otherwise the base, one
  space and the caller's class with its trailing white space removed.
\<close>

lemma join_trim_general:
  assumes "base \<noteq> []" "no_edge_ws base"
  shows "join_trim base cls =
           (if list_all js_whitespace cls then base else base @ js '' '' @ trim_end cls)"
proof -
  from assms have hb: "\<not> js_whitespace (hd base)" and lb: "\<not> js_whitespace (hd (rev base))"
    by (auto simp: no_edge_ws_def hd_rev)
  have sp: "js '' '' = [0x20]" "js_whitespace 0x20"
    by (simp_all add: js_def js_whitespace_def)
  have front: "dropWhile js_whitespace (base @ 0x20 # cls) = base @ 0x20 # cls"
    using assms(1) hb by (intro dropWhile_hd_not) simp_all
  have tail_base: "dropWhile js_whitespace (rev base) = rev base"
    using assms(1) lb by (intro dropWhile_hd_not) simp_all
  show ?thesis
  proof (cases "list_all js_whitespace cls")
    case True
    then have "dropWhile js_whitespace (rev cls @ 0x20 # rev base) = rev base"
      using sp tail_base by (simp add: dropWhile_append list_all_iff)
    with True show ?thesis
      by (simp add: join_trim_def js_trim_def front sp)
  next
    case False
    then obtain x where "x \<in> set (rev cls)" "\<not> js_whitespace x"
      by (auto simp: list_all_iff)
    then have "dropWhile js_whitespace (rev cls @ 0x20 # rev base) =
                 dropWhile js_whitespace (rev cls) @ 0x20 # rev base"
      using dropWhile_append1 by fastforce
    with False show ?thesis
      by (simp add: join_trim_def js_trim_def trim_end_def front sp)
  qed
qed

lemmas base_class_eval = no_edge_ws_def js_whitespace_def js_def

subsection \<open>Properties\<close>

text \<open>
  C23. The cards and the badge join their base classes with the caller's class
  exactly, for every caller class: the class name is the base alone when the caller
  passes none (the default \<open>''\<close>) or only white space, and otherwise the base, one
  space and the caller's class with its trailing white space removed; \<open>trim\<close> never
  touches the base.
\<close>

theorem ui_class_join:
  "card_class cls =
     (if list_all js_whitespace cls then js ''bg-white/5 rounded-lg p-0''
      else js ''bg-white/5 rounded-lg p-0 '' @ trim_end cls) \<and>
   card_header_class cls =
     (if list_all js_whitespace cls then js ''px-4 py-3 border-b''
      else js ''px-4 py-3 border-b '' @ trim_end cls) \<and>
   card_content_class cls =
     (if list_all js_whitespace cls then js ''p-4'' else js ''p-4 '' @ trim_end cls) \<and>
   card_title_class cls =
     (if list_all js_whitespace cls then js ''text-lg font-semibold''
      else js ''text-lg font-semibold '' @ trim_end cls) \<and>
   badge_class cls =
     (if list_all js_whitespace cls then js ''inline-flex items-center rounded-full px-2 py-1 text-xs bg-white/5''
      else js ''inline-flex items-center rounded-full px-2 py-1 text-xs bg-white/5 '' @ trim_end cls)"
proof (intro conjI)
  show "card_class cls =
          (if list_all js_whitespace cls then js ''bg-white/5 rounded-lg p-0''
           else js ''bg-white/5 rounded-lg p-0 '' @ trim_end cls)"
    unfolding card_class_def by (subst join_trim_general) (simp_all add: base_class_eval)
  show "card_header_class cls =
          (if list_all js_whitespace cls then js ''px-4 py-3 border-b''
           else js ''px-4 py-3 border-b '' @ trim_end cls)"
    unfolding card_header_class_def by (subst join_trim_general) (simp_all add: base_class_eval)
  show "card_content_class cls =
          (if list_all js_whitespace cls then js ''p-4'' else js ''p-4 '' @ trim_end cls)"
    unfolding card_content_class_def by (subst join_trim_general) (simp_all add: base_class_eval)
  show "card_title_class cls =
          (if list_all js_whitespace cls then js ''text-lg font-semibold''
           else js ''text-lg font-semibold '' @ trim_end cls)"
    unfolding card_title_class_def by (subst join_trim_general) (simp_all add: base_class_eval)
  show "badge_class cls =
          (if list_all js_whitespace cls then js ''inline-flex items-center rounded-full px-2 py-1 text-xs bg-white/5''
           else js ''inline-flex items-center rounded-full px-2 py-1 text-xs bg-white/5 '' @ trim_end cls)"
    unfolding badge_class_def by (subst join_trim_general) (simp_all add: base_class_eval)
qed

end
