(* ===== verification/Navigation.thy ===== *)
theory Navigation
  imports UiPrimitives
begin

text \<open>
  The page's sections and its in-page navigation (lines 202--203 and 250--265 of the main
  file). \<open>Section\<close> renders a \<open><section>\<close> with the given \<open>id\<close>; the page renders eight
  of them in order. The navigation bar links the brand to \<open>#hero\<close> and maps the list of
  \<open>[label, href]\<close> pairs to a \<open>Button asChild\<close> wrapping an anchor \<open><a href={`#${href}`}>\<close>,
  so each link is the anchor as \<open>Button\<close> clones it. Labels are the anchors' children,
  which the element model does not carry; \<open>key\<close> is React's, not a prop. The
  links are checked against the sections on the whole page, in \<open>Markup\<close>.
\<close>

definition section_class :: "jsstr \<Rightarrow> jsstr" where
  "section_class cls = js ''scroll-mt-24 py-16 md:py-24 '' @ cls"

definition section_element :: "jsstr \<Rightarrow> jsstr \<Rightarrow> element" where
  "section_element sid cls = \<lparr>el_tag = js ''section'', el_class = Some (section_class cls), el_props = [(js ''id'', sid)]\<rparr>"

text \<open>The \<open>id\<close> of every \<open>Section\<close> of the page, in the order they are rendered.\<close>

definition section_ids :: "jsstr list" where
  "section_ids = map js [''hero'', ''about'', ''education'', ''experience'', ''skills'', ''projects'',
                         ''certifications'', ''contact'']"

definition nav_items :: "(jsstr \<times> jsstr) list" where
  "nav_items =
     [(js ''About'', js ''about''), (js ''Education'', js ''education''), (js ''Experience'', js ''experience''),
      (js ''Skills'', js ''skills''), (js ''Projects'', js ''projects''),
      (js ''Certifications'', js ''certifications''), (js ''Contact'', js ''contact'')]"

text \<open>
  One link: \<open>variant\<close> is not one of the props \<open>Button\<close> destructures, so it is among the
  props passed on to the clone.
\<close>

definition nav_link :: "jsstr \<times> jsstr \<Rightarrow> element" where
  "nav_link item =
     (case item of (label, href) \<Rightarrow>
        button True (Some \<lparr>el_tag = js ''a'', el_class = None, el_props = [(js ''href'', js ''#'' @ href)]\<rparr>)
          (js ''px-3'') [(js ''variant'', js ''ghost'')])"

definition brand_link :: element where
  "brand_link = \<lparr>el_tag = js ''a'', el_class = Some (js ''font-semibold tracking-tight''),
                 el_props = [(js ''href'', js ''#hero'')]\<rparr>"

definition nav_links :: "element list" where
  "nav_links = brand_link # map nav_link nav_items"


end
