(* ===== verification/Render.thy ===== *)
theory Render
  imports Filters Navigation
begin

text \<open>
  The rendered markup of the data-driven parts of the page, as a tree of nodes: the
  design-system primitives as node builders (\<open>card.jsx\<close>, \<open>badge.jsx\<close>,
  \<open>tooltip.jsx\<close>), \<open>Section\<close> and \<open>SectionTitle\<close> (lines 202--213), the skills grid
  (lines 468--488), the project grid (lines 509--538) and the certification row
  (lines 560--574). A node is a text, an element (its tag, class and props as in
  \<open>UiPrimitives\<close>, its React \<open>key\<close>, its children), or an array child
  \<open>{xs.map(\<dots>)}\<close>, whose members React tells apart by their keys. Icons of
  \<open>lucide-react\<close> are abstracted as an \<open>svg\<close> element naming the icon; the animation
  props of \<open>motion.div\<close> and \<open>motion.span\<close> are not modelled.
\<close>

datatype node =
    Txt jsstr
  | El element "jsstr option" "node list" \<comment> \<open>element, \<open>key\<close>, children\<close>
  | Frag "node list" \<comment> \<open>an array child\<close>

subsection \<open>Elements and primitives\<close>

definition tag_el :: "jsstr \<Rightarrow> jsstr option \<Rightarrow> jsstr option \<Rightarrow> node list \<Rightarrow> node" where
  "tag_el tag cls k cs = El \<lparr>el_tag = tag, el_class = cls, el_props = []\<rparr> k cs"

definition html_div :: "jsstr \<Rightarrow> node list \<Rightarrow> node" where
  "html_div cls = tag_el (js ''div'') (Some cls) None"

definition html_span :: "jsstr \<Rightarrow> node list \<Rightarrow> node" where
  "html_span cls = tag_el (js ''span'') (Some cls) None"

definition html_p :: "jsstr \<Rightarrow> node list \<Rightarrow> node" where
  "html_p cls = tag_el (js ''p'') (Some cls) None"

definition icon :: "jsstr \<Rightarrow> jsstr \<Rightarrow> node" where
  "icon name cls = El \<lparr>el_tag = js ''svg'', el_class = Some cls, el_props = [(js ''data-icon'', name)]\<rparr> None []"

definition Card :: "jsstr option \<Rightarrow> jsstr \<Rightarrow> node list \<Rightarrow> node" where
  "Card k cls = tag_el (js ''div'') (Some (card_class cls)) k"

definition CardHeader :: "jsstr \<Rightarrow> node list \<Rightarrow> node" where
  "CardHeader cls = tag_el (js ''div'') (Some (card_header_class cls)) None"

definition CardContent :: "jsstr \<Rightarrow> node list \<Rightarrow> node" where
  "CardContent cls = tag_el (js ''div'') (Some (card_content_class cls)) None"

definition CardTitle :: "jsstr \<Rightarrow> node list \<Rightarrow> node" where
  "CardTitle cls = tag_el (js ''div'') (Some (card_title_class cls)) None"

text \<open>\<open>Badge\<close> destructures \<open>variant\<close> and does not use it.\<close>

definition Badge :: "jsstr option \<Rightarrow> jsstr \<Rightarrow> jsstr \<Rightarrow> node list \<Rightarrow> node" where
  "Badge k variant cls = tag_el (js ''span'') (Some (badge_class cls)) k"

definition TooltipProvider :: "node list \<Rightarrow> node" where
  "TooltipProvider = tag_el (js ''div'') None None"

definition Tooltip :: "node list \<Rightarrow> node" where
  "Tooltip = tag_el (js ''div'') None None"

definition TooltipTrigger :: "node list \<Rightarrow> node" where
  "TooltipTrigger = tag_el (js ''span'') None None"

definition TooltipContent :: "node list \<Rightarrow> node" where
  "TooltipContent = tag_el (js ''div'') (Some (js ''bg-black text-white p-2 rounded'')) None"

definition Section :: "jsstr \<Rightarrow> jsstr \<Rightarrow> node list \<Rightarrow> node" where
  "Section sid cls cs = El (section_element sid cls) None cs"

text \<open>\<open>{Icon && <Icon className="h-4 w-4" />}\<close>: nothing when no icon is given.\<close>

definition SectionTitle :: "jsstr option \<Rightarrow> jsstr \<Rightarrow> jsstr \<Rightarrow> node" where
  "SectionTitle ic heading subtitle =
     html_div (js ''mx-auto mb-10 max-w-3xl text-center'')
       [html_div (js ''mb-3 flex items-center justify-center gap-2 text-sm text-primary'')
          ((case ic of None \<Rightarrow> [] | Some i \<Rightarrow> [icon i (js ''h-4 w-4'')]) @
           [html_span (js ''uppercase tracking-wider'') [Txt subtitle]]),
        tag_el (js ''h2'') (Some (js ''text-3xl font-semibold leading-tight md:text-4xl'')) None [Txt heading]]"

subsection \<open>The data-driven grids\<close>

text \<open>\<open>Object.entries(skills).map(([group, items]) => <Card key={group}> \<dots>)\<close>.\<close>

definition skill_badge :: "jsstr \<Rightarrow> node" where
  "skill_badge s = tag_el (js ''span'') None (Some s) [Badge None (js ''outline'') (js ''rounded-full px-3 py-1'') [Txt s]]"

definition skill_card :: "jsstr \<times> jsstr list \<Rightarrow> node" where
  "skill_card gi = (case gi of (grp, items) \<Rightarrow>
     Card (Some grp) []
       [CardHeader [] [CardTitle (js ''flex items-center gap-2 text-lg'')
                         [icon (js ''ChevronRight'') (js ''h-4 w-4''), Txt (js '' ''), Txt grp]],
        CardContent (js ''flex flex-wrap gap-2'') [Frag (map skill_badge items)]])"

definition skills_grid :: node where
  "skills_grid = Frag (map skill_card skills)"

text \<open>
  A project card: \<open>motion.div key={p.title}\<close> around a card with the title, the blurb,
  one badge per tag (\<open>key={t}\<close>) and the link \<open>Button asChild\<close>.
\<close>

definition project_anchor :: "project \<Rightarrow> element" where
  "project_anchor p =
     button True
       (Some \<lparr>el_tag = js ''a'', el_class = Some (js ''inline-flex items-center gap-2''),
              el_props = [(js ''href'', link p), (js ''target'', js ''_blank''), (js ''rel'', js ''noreferrer'')]\<rparr>)
       [] [(js ''size'', js ''sm''), (js ''variant'', js ''secondary'')]"

definition project_link :: "project \<Rightarrow> node" where
  "project_link p = El (project_anchor p) None [Txt (js ''View details ''), icon (js ''ExternalLink'') (js ''h-4 w-4'')]"

definition project_card :: "project \<Rightarrow> node" where
  "project_card p =
     tag_el (js ''div'') None (Some (title p))
       [Card None (js ''group h-full overflow-hidden'')
          [CardHeader [] [CardTitle (js ''group-hover:text-primary transition-colors'') [Txt (title p)]],
           CardContent (js ''space-y-4'')
             [html_p (js ''text-sm text-muted-foreground'') [Txt (blurb p)],
              html_div (js ''flex flex-wrap gap-2'')
                [Frag (map (\<lambda>t. Badge (Some t) (js ''outline'') (js ''rounded-full'') [Txt t]) (tags p))],
              project_link p]]]"

definition project_grid :: "project list \<Rightarrow> node" where
  "project_grid ps = Frag (map project_card ps)"

text \<open>A certification card, \<open>key={c.title + idx}\<close>; \<open>{c.org} \<bullet> {c.year}\<close> with U+2022.\<close>

definition cert_card :: "certification \<times> nat \<Rightarrow> node" where
  "cert_card ci = (case ci of (c, idx) \<Rightarrow>
     Card (Some (cert_key c idx)) (js ''min-w-[280px] snap-center'')
       [CardContent (js ''p-6'')
          [html_div (js ''mb-2 flex items-center gap-2'')
             [icon (js ''Award'') (js ''h-5 w-5 text-primary''), html_span (js ''font-medium'') [Txt (cert_title c)]],
           html_p (js ''text-sm text-muted-foreground'')
             [Txt (cert_org c), Txt [0x20, 0x2022, 0x20], Txt (js_int_to_string (cert_year c))],
           html_div (js ''mt-4 flex items-center gap-2'')
             [Badge None (js ''secondary'') [] [Txt (js ''Verified'')],
              Badge None (js ''outline'') [] [Txt (js ''Professional'')]]]])"

definition cert_row :: "certification list \<Rightarrow> node" where
  "cert_row cs = Frag (map cert_card (zip cs [0..<length cs]))"

subsection \<open>Reading the tree\<close>

fun node_key :: "node \<Rightarrow> jsstr option" where
  "node_key (El e k cs) = k"
| "node_key _ = None"

text \<open>The texts of a tree in document order, as \<open>textContent\<close> concatenates them.\<close>

fun texts :: "node \<Rightarrow> jsstr list" where
  "texts (Txt s) = [s]"
| "texts (El e k cs) = concat (map texts cs)"
| "texts (Frag cs) = concat (map texts cs)"

text \<open>
  React's key rule: the members of every array child carry a key, and the keys of one
  array are distinct.
\<close>

fun keys_ok :: "node \<Rightarrow> bool" where
  "keys_ok (Txt s) = True"
| "keys_ok (El e k cs) = list_all keys_ok cs"
| "keys_ok (Frag cs) =
     (list_all (\<lambda>n. node_key n \<noteq> None) cs \<and> distinct (map node_key cs) \<and> list_all keys_ok cs)"

text \<open>
  The texts shown inside the elements a predicate selects, in document order: a
  selected element contributes all its text, and the search continues below the others.
\<close>

fun texts_in :: "(element \<Rightarrow> bool) \<Rightarrow> node \<Rightarrow> jsstr list" where
  "texts_in P (Txt s) = []"
| "texts_in P (El e k cs) = (if P e then texts (El e k cs) else concat (map (texts_in P) cs))"
| "texts_in P (Frag cs) = concat (map (texts_in P) cs)"

text \<open>
  The parts of a project card a visitor reads as its heading and its tags: the
  \<open>CardTitle\<close> and the tag \<open>Badge\<close>s, told apart from the rest of the card by the
  classes the page gives them.
\<close>

definition heading_or_tag :: "element \<Rightarrow> bool" where
  "heading_or_tag e \<longleftrightarrow>
     el_class e = Some (card_title_class (js ''group-hover:text-primary transition-colors'')) \<or>
     el_class e = Some (badge_class (js ''rounded-full''))"

subsection \<open>Lemmas\<close>

lemmas node_defs = tag_el_def html_div_def html_span_def html_p_def icon_def Card_def CardHeader_def
  CardContent_def CardTitle_def Badge_def

lemma node_key_project_card [simp]: "node_key (project_card p) = Some (title p)"
  by (simp add: project_card_def tag_el_def)

lemma node_key_cert_card [simp]: "node_key (cert_card ci) = Some (cert_key (fst ci) (snd ci))"
  by (cases ci) (simp add: cert_card_def node_defs)

lemma distinct_map_Some [simp]: "distinct (map (\<lambda>x. Some (f x)) xs) \<longleftrightarrow> distinct (map f xs)"
  by (induction xs) auto

lemma node_key_skill_card [simp]: "node_key (skill_card (g, items)) = Some g"
  by (simp add: skill_card_def node_defs)

lemma keys_ok_badges:
  "keys_ok (Frag (map (\<lambda>t. Badge (Some t) v c [Txt t]) ts)) \<longleftrightarrow> distinct ts"
  by (simp add: node_defs list_all_iff distinct_map inj_on_def comp_def)

lemma keys_ok_project_card: "distinct (tags p) \<Longrightarrow> keys_ok (project_card p)"
  by (simp add: project_card_def project_link_def project_anchor_def node_defs list_all_iff distinct_map inj_on_def)

lemma keys_ok_cert_card [simp]: "keys_ok (cert_card ci)"
  by (cases ci) (simp add: cert_card_def node_defs)

lemma keys_ok_skill_card: "distinct items \<Longrightarrow> keys_ok (skill_card (g, items))"
  by (simp add: skill_card_def skill_badge_def node_defs list_all_iff distinct_map inj_on_def)

lemma keys_ok_project_grid:
  assumes "distinct (map title ps)" "list_all (\<lambda>p. distinct (tags p)) ps"
  shows "keys_ok (project_grid ps)"
  using assms by (simp add: project_grid_def list_all_iff keys_ok_project_card comp_def)

lemma map_node_key_cert_row: "map node_key (map cert_card (zip cs [0..<length cs])) = map Some (cert_keys cs)"
  by (simp add: cert_keys_def case_prod_beta')

lemma keys_ok_cert_row: "distinct (cert_keys cs) \<Longrightarrow> keys_ok (cert_row cs)"
proof -
  assume d: "distinct (cert_keys cs)"
  have k: "distinct (map node_key (map cert_card (zip cs [0..<length cs])))"
    by (simp only: map_node_key_cert_row) (simp add: d distinct_map)
  have a: "list_all (\<lambda>n. node_key n \<noteq> None) (map cert_card (zip cs [0..<length cs]))"
    by (simp add: list_all_iff)
  from a k show ?thesis
    unfolding cert_row_def keys_ok.simps by (simp add: list_all_iff del: map_map)
qed

lemma texts_in_tag_badges:
  "texts_in heading_or_tag (Frag (map (\<lambda>t. Badge (Some t) (js ''outline'') (js ''rounded-full'') [Txt t]) ts)) = ts"
  by (induction ts) (simp_all add: heading_or_tag_def node_defs)

lemma texts_in_project_card: "texts_in heading_or_tag (project_card p) = title p # tags p"
  using texts_in_tag_badges [of "tags p"]
  by (simp add: project_card_def project_link_def project_anchor_def node_defs heading_or_tag_def
      card_class_def card_header_class_def card_content_class_def card_title_class_def badge_class_def
      join_trim_def js_trim_def js_whitespace_def js_def button_def merge_props_def)

lemma list_all_filter: "list_all P xs \<Longrightarrow> list_all P (filter Q xs)"
  by (simp add: list_all_iff)

lemma projects_tags_distinct: "list_all (\<lambda>p. distinct (tags p)) projects"
  by (simp add: projects_def js_def)

lemma skills_grid_keys_ok: "keys_ok skills_grid"
  by (simp add: skills_grid_def skills_def keys_ok_skill_card js_def)

lemma filtered_project_grid_keys_ok: "keys_ok (project_grid (filtered_projects q projects))"
proof (rule keys_ok_project_grid)
  show "distinct (map title (filtered_projects q projects))"
    using filtered_project_keys_distinct by (simp add: project_keys_def)
  show "list_all (\<lambda>p. distinct (tags p)) (filtered_projects q projects)"
    unfolding filtered_projects_def by (rule list_all_filter [OF projects_tags_distinct])
qed

lemma filtered_cert_row_keys_ok: "keys_ok (cert_row (filtered_certs q certifications))"
  by (rule keys_ok_cert_row [OF filtered_cert_keys_distinct])

subsection \<open>Properties\<close>

text \<open>
  C19. The rendered lists satisfy React's key rule for every query: the skill cards
  and the badges inside each, the project cards and the tag badges inside each, and the
  certification cards all carry keys distinct within their list.
\<close>

theorem render_keys_ok:
  "keys_ok skills_grid \<and> keys_ok (project_grid (filtered_projects q projects)) \<and>
   keys_ok (cert_row (filtered_certs q' certifications))"
  by (simp add: skills_grid_keys_ok filtered_project_grid_keys_ok filtered_cert_row_keys_ok)

text \<open>
  C14. Every project card the grid shows for a query displays the query, ignoring
  case, where the visitor reads it: in the card's title or in one of its tag badges
  (not merely somewhere on the card, such as the blurb or the link text).
\<close>

theorem project_cards_show_query:
  "list_all (\<lambda>n. list_ex (\<lambda>t. sublist (js_toLowerCase q) (js_toLowerCase t)) (texts_in heading_or_tag n))
     (map project_card (filtered_projects q ps))"
  by (auto simp: filtered_projects_text_filter text_filter_def project_fields_def texts_in_project_card
      list_all_iff list_ex_iff)

end
