(* ===== verification/Markup.thy ===== *)
theory Markup
  imports Render Theme
begin

text \<open>
  The whole markup \<open>Portfolio\<close> renders (lines 166--199 and 242--639 of the main file),
  as a tree of \<open>node\<close>s of \<open>Render\<close>: the animated background, the particle field,
  the navigation bar with its two theme switches, the eight sections and the footer. The
  parts that depend on the state are parameters: the theme flag the switches show, the
  two queries shown in the search inputs, the two filtered lists, and the current year
  of the footer. Text children are the strings JSX produces (each line trimmed, the
  lines of a text joined by one space); boolean attributes are the strings React writes
  (\<open>"true"\<close>, \<open>""\<close>). The Recharts chart is an opaque element (its tooltip formatter is
  \<open>Timeline\<close>), and the random \<open>style\<close> of the particles is not modelled. The
  observations at the end read the tree the way a browser does: its elements in document
  order, their links, ids and form controls.
\<close>

subsection \<open>Components used by the page\<close>

definition js_bool :: "bool \<Rightarrow> jsstr" where
  "js_bool b = (if b then js ''true'' else js ''false'')"

text \<open>\<open>Switch\<close> (\<open>switch.jsx\<close>): a checkbox whose \<open>checked\<close> and \<open>aria-checked\<close> show the flag.\<close>

definition switch_element :: "bool \<Rightarrow> element" where
  "switch_element checked =
     \<lparr>el_tag = js ''input'', el_class = Some (js ''h-5 w-9 rounded-full''),
      el_props = [(js ''type'', js ''checkbox''), (js ''checked'', js_bool checked),
                  (js ''aria-checked'', js_bool checked)]\<rparr>"

definition Switch :: "bool \<Rightarrow> node" where
  "Switch checked = El (switch_element checked) None []"

text \<open>A link of the navigation bar: \<open><Button key={href} \<dots>><a \<dots>>{label}</a></Button>\<close>.\<close>

definition nav_button :: "jsstr \<times> jsstr \<Rightarrow> node" where
  "nav_button item = El (nav_link item) (Some (snd item)) [Txt (fst item)]"

text \<open>The \<open>ResponsiveContainer\<close> of the career chart, rendered by Recharts.\<close>

definition timeline_chart :: node where
  "timeline_chart = tag_el (js ''ResponsiveContainer'') None None []"

subsection \<open>The markup\<close>

definition animated_gradient :: "node" where
  "animated_gradient =
     El \<lparr>el_tag = (js ''div''), el_class = (Some (js ''pointer-events-none absolute inset-0 -z-10 [mask-image:radial-gradient(ellipse_at_center,white,transparent_70%)]'')),
       el_props = [((js ''aria-hidden''), (js ''true''))]\<rparr> None [El \<lparr>el_tag = (js ''div''),
       el_class = (Some (js ''absolute -top-16 left-1/2 h-[60rem] w-[60rem] -translate-x-1/2 rounded-full bg-gradient-to-tr from-violet-500/40 via-fuchsia-500/30 to-cyan-500/40 blur-3xl animate-pulse'')),
       el_props = []\<rparr> None []]"

definition float_keyframes :: "jsstr" where
  "float_keyframes =
     ([0xA] @ js ''      @keyframes float {'' @ [0xA] @ js ''        0% { transform: translateY(0) scale(1); opacity: .5 }'' @ [0xA] @ js ''        50% { transform: translateY(-20px) scale(1.05); opacity: .9 }'' @ [0xA] @ js ''        100% { transform: translateY(0) scale(1); opacity: .5 }'' @ [0xA] @ js ''      }'' @ [0xA] @ js ''    '')"

definition nav_header :: "bool \<Rightarrow> node" where
  "nav_header dark =
     El \<lparr>el_tag = (js ''header''), el_class = (Some (js ''sticky top-0 z-30 backdrop-blur supports-[backdrop-filter]:bg-background/70 border-b border-border'')),
       el_props = []\<rparr> None [El \<lparr>el_tag = (js ''nav''),
       el_class = (Some (js ''mx-auto flex max-w-7xl items-center justify-between px-4 py-3 md:px-6'')),
       el_props = []\<rparr> None [El brand_link None [Txt (js ''DA '' @ [0x2022] @ js '' AI/ML Portfolio'')],
       El \<lparr>el_tag = (js ''div''), el_class = (Some (js ''hidden items-center gap-1 md:flex'')),
       el_props = []\<rparr> None [Frag (map nav_button nav_items),
       El \<lparr>el_tag = (js ''div''), el_class = (Some (js ''ml-2 flex items-center gap-2 rounded-full border px-3 py-1 text-xs'')),
       el_props = []\<rparr> None [icon (js ''Sun'') (js ''h-4 w-4''),
       Switch dark, icon (js ''Moon'') (js ''h-4 w-4'')]], El \<lparr>el_tag = (js ''div''),
       el_class = (Some (js ''flex items-center gap-2 md:hidden'')),
       el_props = []\<rparr> None [El \<lparr>el_tag = (js ''div''),
       el_class = (Some (js ''flex items-center gap-2 rounded-full border px-3 py-1 text-xs'')),
       el_props = []\<rparr> None [icon (js ''Sun'') (js ''h-4 w-4''),
       Switch dark, icon (js ''Moon'') (js ''h-4 w-4'')]]]]"

definition hero_section :: "node" where
  "hero_section =
     Section (js ''hero'') (js ''relative pt-12'') [El \<lparr>el_tag = (js ''div''),
       el_class = (Some (js ''mx-auto grid max-w-7xl items-center gap-8 px-4 md:grid-cols-2 md:px-6'')),
       el_props = []\<rparr> None [El \<lparr>el_tag = (js ''div''),
       el_class = (Some (js ''order-2 md:order-1'')), el_props = []\<rparr> None [Badge None [] (js ''mb-4 gap-1 bg-primary/15 text-primary hover:bg-primary/20'') [El \<lparr>el_tag = (js ''span''),
       el_class = (Some (js ''inline-flex items-center gap-1'')), el_props = []\<rparr> None [icon (js ''Brain'') (js ''h-3.5 w-3.5''),
       Txt (js '' Data '' @ [0x2022] @ js '' AI '' @ [0x2022] @ js '' GenAI'')]],
       El \<lparr>el_tag = (js ''h1''), el_class = (Some (js ''mb-4 text-3xl font-extrabold leading-tight md:text-5xl'')),
       el_props = []\<rparr> None [Txt (js ''6 Years Global Experience | Data Analyst | Data Science | AI & Machine Learning Enthusiast | Generative AI Application Builder | SQL, Pandas, NumPy, Oracle DB Developer | FastAPI/Flask | Pinecone, Weaviate, FAISS (for GenAI search apps) | Data Analytics | Power BI | Advanced Excel | Crystal Reports Expertise | Python, Seaborn, Matplotlib | PL/SQL Developer | Web Scraping'')],
       El \<lparr>el_tag = (js ''p''), el_class = (Some (js ''mb-6 text-muted-foreground text-lg'')),
       el_props = []\<rparr> None [Txt ([0x22] @ js ''Transforming Data into Actionable Insights & Building Scalable AI Solutions'' @ [0x22])],
       El \<lparr>el_tag = (js ''div''), el_class = (Some (js ''flex flex-wrap gap-3'')),
       el_props = []\<rparr> None [El (button True (Some \<lparr>el_tag = (js ''a''),
       el_class = (Some (js ''inline-flex items-center gap-2'')), el_props = [((js ''href''),
       (js ''/resume.pdf'')), ((js ''download''), [])]\<rparr>) [] [((js ''size''),
       (js ''lg''))]) None [icon (js ''Download'') (js ''h-4 w-4''),
       Txt (js '' Download Resume'')], El (button True (Some \<lparr>el_tag = (js ''a''),
       el_class = (Some (js ''inline-flex items-center gap-2'')), el_props = [((js ''href''),
       (js ''#projects''))]\<rparr>) [] [((js ''size''), (js ''lg'')),
       ((js ''variant''), (js ''secondary''))]) None [icon (js ''LineChart'') (js ''h-4 w-4''),
       Txt (js '' View Projects'')]], El \<lparr>el_tag = (js ''div''),
       el_class = (Some (js ''mt-6 flex flex-wrap items-center gap-4 text-sm text-muted-foreground'')),
       el_props = []\<rparr> None [El \<lparr>el_tag = (js ''span''),
       el_class = (Some (js ''inline-flex items-center gap-2'')), el_props = []\<rparr> None [icon (js ''Database'') (js ''h-4 w-4''),
       Txt (js '' Oracle '' @ [0x2022] @ js '' SQL '' @ [0x2022] @ js '' PL/SQL'')],
       El \<lparr>el_tag = (js ''span''), el_class = (Some (js ''inline-flex items-center gap-2'')),
       el_props = []\<rparr> None [icon (js ''Bot'') (js ''h-4 w-4''),
       Txt (js '' LLM '' @ [0x2022] @ js '' Vector DB '' @ [0x2022] @ js '' LangChain'')]]],
       El \<lparr>el_tag = (js ''div''), el_class = (Some (js ''order-1 md:order-2'')),
       el_props = []\<rparr> None [El \<lparr>el_tag = (js ''div''),
       el_class = (Some (js ''relative mx-auto aspect-square w-64 overflow-hidden rounded-3xl border bg-gradient-to-tr from-muted to-transparent p-1 shadow-2xl md:w-80'')),
       el_props = []\<rparr> None [El \<lparr>el_tag = (js ''div''),
       el_class = (Some (js ''flex h-full w-full items-center justify-center rounded-3xl bg-muted/40'')),
       el_props = []\<rparr> None [El \<lparr>el_tag = (js ''span''),
       el_class = (Some (js ''text-muted-foreground'')), el_props = []\<rparr> None [Txt (js ''Upload your professional photo'')]],
       El \<lparr>el_tag = (js ''div''), el_class = (Some (js ''pointer-events-none absolute inset-0 rounded-3xl ring-1 ring-white/10'')),
       el_props = []\<rparr> None []]]]]"

definition about_section :: "node" where
  "about_section =
     Section (js ''about'') [] [SectionTitle (Some (js ''Brain'')) (js ''About Me'') (js ''Profile''),
       El \<lparr>el_tag = (js ''div''), el_class = (Some (js ''mx-auto grid max-w-6xl gap-6 px-4 md:grid-cols-3 md:px-6'')),
       el_props = []\<rparr> None [Card None (js ''md:col-span-2'') [CardContent (js ''space-y-4 p-6 text-muted-foreground'') [El \<lparr>el_tag = (js ''p''),
       el_class = None, el_props = []\<rparr> None [Txt (js ''I am a Data Analyst, SQL Developer, and AI/ML Enthusiast with over 6 years of global experience in delivering data-driven solutions, automating business processes, and building intelligent applications. My expertise spans across core banking systems, data analytics, reporting, and modern AI-powered solutions.'')],
       El \<lparr>el_tag = (js ''p''), el_class = None, el_props = []\<rparr> None [El \<lparr>el_tag = (js ''strong''),
       el_class = (Some (js ''text-foreground'')), el_props = []\<rparr> None [Txt (js ''I specialize in:'')]],
       El \<lparr>el_tag = (js ''ul''), el_class = (Some (js ''list-disc space-y-2 pl-6'')),
       el_props = []\<rparr> None [El \<lparr>el_tag = (js ''li''),
       el_class = None, el_props = []\<rparr> None [El \<lparr>el_tag = (js ''strong''),
       el_class = None, el_props = []\<rparr> None [Txt (js ''Data Analytics & BI:'')],
       Txt (js '' Transforming raw data into actionable insights through Power BI, Crystal Reports, Advanced Excel, and Python visualizations (Matplotlib, Seaborn).'')],
       El \<lparr>el_tag = (js ''li''), el_class = None, el_props = []\<rparr> None [El \<lparr>el_tag = (js ''strong''),
       el_class = None, el_props = []\<rparr> None [Txt (js ''SQL & Database Development:'')],
       Txt (js '' Designing and optimizing complex SQL queries, stored procedures, triggers, and database schemas for high-performance financial applications.'')],
       El \<lparr>el_tag = (js ''li''), el_class = None, el_props = []\<rparr> None [El \<lparr>el_tag = (js ''strong''),
       el_class = None, el_props = []\<rparr> None [Txt (js ''AI & Generative AI:'')],
       Txt (js '' Developing intelligent apps with Python, FastAPI, Flask, Streamlit, and integrating LLMs (ChatGPT, HuggingFace, LangChain) with vector databases like Pinecone, Weaviate, and FAISS for next-gen search & automation solutions.'')],
       El \<lparr>el_tag = (js ''li''), el_class = None, el_props = []\<rparr> None [El \<lparr>el_tag = (js ''strong''),
       el_class = None, el_props = []\<rparr> None [Txt (js ''Core Banking Support:'')],
       Txt (js '' Hands-on experience in requirements gathering, process analysis, MIS reporting, and database optimization for enterprise-grade banking systems.'')]],
       El \<lparr>el_tag = (js ''p''), el_class = None, el_props = []\<rparr> None [Txt (js ''With a proven track record in both corporate banking software engineering and data science applications, I thrive at the intersection of data analytics, AI/ML, and financial technology, enabling organizations to make smarter, faster, and more informed decisions.'')]]],
       Card None [] [CardHeader [] [CardTitle (js ''text-lg'') [Txt (js ''Career Growth'')]],
       CardContent [] [El \<lparr>el_tag = (js ''div''), el_class = (Some (js ''h-48 w-full'')),
       el_props = []\<rparr> None [timeline_chart], El \<lparr>el_tag = (js ''p''),
       el_class = (Some (js ''mt-2 text-xs text-muted-foreground'')),
       el_props = []\<rparr> None [Txt (js ''Interactive timeline of impact & responsibility over time.'')]]]]]"

definition education_section :: "node" where
  "education_section =
     Section (js ''education'') [] [SectionTitle (Some (js ''School'')) (js ''Education'') (js ''Academic''),
       El \<lparr>el_tag = (js ''div''), el_class = (Some (js ''mx-auto grid max-w-5xl gap-4 px-4 md:grid-cols-2 md:px-6'')),
       el_props = []\<rparr> None [Card None [] [CardHeader [] [CardTitle [] [Txt (js ''B.Sc. in Computer Science and Engineering '' @ [0x2013] @ js '' Dhaka International University'')]],
       CardContent (js ''text-muted-foreground'') [Txt (js ''2020'')]],
       Card None [] [CardHeader [] [CardTitle [] [Txt (js ''Diploma in Computer Engineering '' @ [0x2013] @ js '' Jhenaidah Polytechnic Institute'')]],
       CardContent (js ''text-muted-foreground'') [Txt (js ''2016'')]]]]"

definition experience_section :: "node" where
  "experience_section =
     Section (js ''experience'') [] [SectionTitle (Some (js ''Briefcase'')) (js ''Work Experience'') (js ''Career''),
       El \<lparr>el_tag = (js ''div''), el_class = (Some (js ''mx-auto grid max-w-6xl gap-6 px-4 md:grid-cols-2 md:px-6'')),
       el_props = []\<rparr> None [Card None (js ''border-primary/20'') [CardHeader [] [El \<lparr>el_tag = (js ''div''),
       el_class = (Some (js ''flex items-start justify-between gap-4'')),
       el_props = []\<rparr> None [El \<lparr>el_tag = (js ''div''),
       el_class = None, el_props = []\<rparr> None [CardTitle [] [Txt (js ''Leads Corporation Ltd'')],
       El \<lparr>el_tag = (js ''p''), el_class = (Some (js ''text-sm text-muted-foreground'')),
       el_props = []\<rparr> None [Txt (js ''Senior Software Engineer | Core Banking & Data Analytics'')]],
       Badge None (js ''secondary'') [] [Txt (js ''Nov 2019 '' @ [0x2013] @ js '' Feb 2023'')]]],
       CardContent [] [El \<lparr>el_tag = (js ''ul''), el_class = (Some (js ''list-disc space-y-2 pl-6 text-muted-foreground'')),
       el_props = []\<rparr> None [El \<lparr>el_tag = (js ''li''),
       el_class = None, el_props = []\<rparr> None [Txt (js ''Gathered requirements for core banking systems (transactions, account management, loan disbursement, compliance).'')],
       El \<lparr>el_tag = (js ''li''), el_class = None, el_props = []\<rparr> None [Txt (js ''Analyzed workflows and integrated them into new core banking solutions.'')],
       El \<lparr>el_tag = (js ''li''), el_class = None, el_props = []\<rparr> None [Txt (js ''Developed optimized SQL queries, stored procedures, views, and functions to automate banking operations.'')],
       El \<lparr>el_tag = (js ''li''), el_class = None, el_props = []\<rparr> None [Txt (js ''Designed and managed database objects (tables, indexes, partitions) for efficient data retrieval.'')],
       El \<lparr>el_tag = (js ''li''), el_class = None, el_props = []\<rparr> None [Txt (js ''Enhanced database performance via indexing, restructuring, and partitioning.'')],
       El \<lparr>el_tag = (js ''li''), el_class = None, el_props = []\<rparr> None [Txt (js ''Integrated SQL scripts into banking applications for real-time data access.'')],
       El \<lparr>el_tag = (js ''li''), el_class = None, el_props = []\<rparr> None [Txt (js ''Built Power BI dashboards for KPIs, customer behavior, and regulatory reports.'')],
       El \<lparr>el_tag = (js ''li''), el_class = None, el_props = []\<rparr> None [Txt (js ''Designed dynamic Crystal Reports for customer activity and operational performance.'')],
       El \<lparr>el_tag = (js ''li''), el_class = None, el_props = []\<rparr> None [Txt (js ''Conducted data cleaning & preprocessing to ensure accuracy.'')]]]],
       Card None (js ''border-primary/20'') [CardHeader [] [El \<lparr>el_tag = (js ''div''),
       el_class = (Some (js ''flex items-start justify-between gap-4'')),
       el_props = []\<rparr> None [El \<lparr>el_tag = (js ''div''),
       el_class = None, el_props = []\<rparr> None [CardTitle [] [Txt (js ''Meghna Bank PLC'')],
       El \<lparr>el_tag = (js ''p''), el_class = (Some (js ''text-sm text-muted-foreground'')),
       el_props = []\<rparr> None [Txt (js ''Assistant Officer (Data Analyst & Python Developer)'')]],
       Badge None (js ''secondary'') [] [Txt (js ''Feb 2023 '' @ [0x2013] @ js '' Present'')]]],
       CardContent [] [El \<lparr>el_tag = (js ''ul''), el_class = (Some (js ''list-disc space-y-2 pl-6 text-muted-foreground'')),
       el_props = []\<rparr> None [El \<lparr>el_tag = (js ''li''),
       el_class = None, el_props = []\<rparr> None [Txt (js ''Built MIS reports and provided end-to-end support for general banking operations.'')],
       El \<lparr>el_tag = (js ''li''), el_class = None, el_props = []\<rparr> None [Txt (js ''Designed Power BI & Streamlit dashboards with predictive analytics (loans, sales, risks).'')],
       El \<lparr>el_tag = (js ''li''), el_class = None, el_props = []\<rparr> None [Txt (js ''Automated workflows using Python scripts for reporting, forecasting, and preprocessing.'')],
       El \<lparr>el_tag = (js ''li''), el_class = None, el_props = []\<rparr> None [Txt (js ''Implemented AI/ML models for trend prediction & risk forecasting.'')],
       El \<lparr>el_tag = (js ''li''), el_class = None, el_props = []\<rparr> None [Txt (js ''Developed Generative AI apps using LLMs, LangChain, Pinecone, Weaviate, FAISS.'')],
       El \<lparr>el_tag = (js ''li''), el_class = None, el_props = []\<rparr> None [Txt (js ''Created optimized SQL queries, triggers, and stored procedures to streamline workflows.'')],
       El \<lparr>el_tag = (js ''li''), el_class = None, el_props = []\<rparr> None [Txt (js ''Built Crystal Reports for finance, customers, and operations.'')],
       El \<lparr>el_tag = (js ''li''), el_class = None, el_props = []\<rparr> None [Txt (js ''Supported core banking solution software implementation.'')]]]]]]"

definition skills_section :: "node" where
  "skills_section =
     Section (js ''skills'') [] [SectionTitle (Some (js ''LineChart'')) (js ''Skills'') (js ''Toolbox''),
       El \<lparr>el_tag = (js ''div''), el_class = (Some (js ''mx-auto grid max-w-6xl gap-6 px-4 md:grid-cols-2 md:px-6'')),
       el_props = []\<rparr> None [skills_grid]]"

definition projects_section :: "jsstr \<Rightarrow> project list \<Rightarrow> node" where
  "projects_section query ps =
     Section (js ''projects'') [] [SectionTitle (Some (js ''LineChart'')) (js ''Projects'') (js ''Selected Work''),
       El \<lparr>el_tag = (js ''div''), el_class = (Some (js ''mx-auto max-w-6xl px-4 md:px-6'')),
       el_props = []\<rparr> None [El \<lparr>el_tag = (js ''div''),
       el_class = (Some (js ''mb-6 flex items-center gap-2'')), el_props = []\<rparr> None [El \<lparr>el_tag = (js ''div''),
       el_class = (Some (js ''relative w-full md:w-96'')), el_props = []\<rparr> None [icon (js ''Search'') (js ''absolute left-3 top-1/2 -translate-y-1/2 h-4 w-4 text-muted-foreground''),
       El (input [((js ''value''), query), ((js ''placeholder''), (js ''Search by title or tag'' @ [0x2026]))] (Some (js ''pl-9''))) None []]],
       El \<lparr>el_tag = (js ''div''), el_class = (Some (js ''grid gap-6 sm:grid-cols-2 lg:grid-cols-3'')),
       el_props = []\<rparr> None [project_grid ps]]]"

definition certifications_section :: "jsstr \<Rightarrow> certification list \<Rightarrow> node" where
  "certifications_section certQuery cs =
     Section (js ''certifications'') [] [SectionTitle (Some (js ''Award'')) (js ''Certifications'') (js ''Badges''),
       El \<lparr>el_tag = (js ''div''), el_class = (Some (js ''mx-auto max-w-6xl px-4 md:px-6'')),
       el_props = []\<rparr> None [El \<lparr>el_tag = (js ''div''),
       el_class = (Some (js ''mb-6 flex items-center gap-2'')), el_props = []\<rparr> None [El \<lparr>el_tag = (js ''div''),
       el_class = (Some (js ''relative w-full md:w-96'')), el_props = []\<rparr> None [icon (js ''Search'') (js ''absolute left-3 top-1/2 -translate-y-1/2 h-4 w-4 text-muted-foreground''),
       El (input [((js ''value''), certQuery), ((js ''placeholder''),
       (js ''Search certifications'' @ [0x2026]))] (Some (js ''pl-9''))) None []]],
       El \<lparr>el_tag = (js ''div''), el_class = (Some (js ''no-scrollbar flex snap-x gap-4 overflow-x-auto pb-2'')),
       el_props = []\<rparr> None [cert_row cs]]]"

definition contact_form :: "node" where
  "contact_form =
     El \<lparr>el_tag = (js ''form''), el_class = (Some (js ''space-y-4'')),
       el_props = []\<rparr> None [El (input [((js ''name''), (js ''name'')),
       ((js ''placeholder''), (js ''Name'')), ((js ''required''), [])] None) None [],
       El (input [((js ''name''), (js ''email'')), ((js ''type''), (js ''email'')),
       ((js ''placeholder''), (js ''Email'')), ((js ''required''), [])] None) None [],
       El (textarea [((js ''name''), (js ''message'')), ((js ''placeholder''),
       (js ''Message'')), ((js ''required''), [])] (Some (js ''min-h-[120px]''))) None [],
       El \<lparr>el_tag = (js ''div''), el_class = (Some (js ''flex items-center gap-2'')),
       el_props = []\<rparr> None [El (button False None (js ''inline-flex items-center gap-2'') [((js ''type''),
       (js ''submit''))]) None [icon (js ''Send'') (js ''h-4 w-4''),
       Txt (js '' Send'')], El (button True (Some \<lparr>el_tag = (js ''a''),
       el_class = (Some (js ''inline-flex items-center gap-2'')), el_props = [((js ''href''),
       (js ''/resume.pdf'')), ((js ''download''), [])]\<rparr>) [] [((js ''variant''),
       (js ''secondary''))]) None [icon (js ''Download'') (js ''h-4 w-4''),
       Txt (js '' Resume'')]]]"

definition contact_section :: "node" where
  "contact_section =
     Section (js ''contact'') [] [SectionTitle (Some (js ''Mail'')) (js ''Contact'') (js ''Let'' @ [0x27] @ js ''s Talk''),
       El \<lparr>el_tag = (js ''div''), el_class = (Some (js ''mx-auto grid max-w-5xl gap-6 px-4 md:grid-cols-2 md:px-6'')),
       el_props = []\<rparr> None [Card None [] [CardHeader [] [CardTitle [] [Txt (js ''Send a Message'')]],
       CardContent [] [contact_form]], Card None [] [CardHeader [] [CardTitle [] [Txt (js ''Connect'')]],
       CardContent (js ''space-y-3'') [El \<lparr>el_tag = (js ''a''),
       el_class = (Some (js ''flex items-center gap-2 text-sm hover:text-primary'')),
       el_props = [((js ''href''), (js ''https://www.linkedin.com/'')),
       ((js ''target''), (js ''_blank'')), ((js ''rel''), (js ''noreferrer''))]\<rparr> None [icon (js ''Linkedin'') (js ''h-4 w-4''),
       Txt (js '' LinkedIn'')], El \<lparr>el_tag = (js ''a''), el_class = (Some (js ''flex items-center gap-2 text-sm hover:text-primary'')),
       el_props = [((js ''href''), (js ''https://github.com/'')), ((js ''target''),
       (js ''_blank'')), ((js ''rel''), (js ''noreferrer''))]\<rparr> None [icon (js ''Github'') (js ''h-4 w-4''),
       Txt (js '' GitHub'')], El \<lparr>el_tag = (js ''a''), el_class = (Some (js ''flex items-center gap-2 text-sm hover:text-primary'')),
       el_props = [((js ''href''), (js ''mailto:youremail@example.com''))]\<rparr> None [icon (js ''Mail'') (js ''h-4 w-4''),
       Txt (js '' Email'')]]]]]"

definition footer_section :: "int \<Rightarrow> node" where
  "footer_section year =
     El \<lparr>el_tag = (js ''footer''), el_class = (Some (js ''border-t border-border py-10 text-center text-sm text-muted-foreground'')),
       el_props = []\<rparr> None [El \<lparr>el_tag = (js ''div''),
       el_class = (Some (js ''mx-auto max-w-6xl px-4 md:px-6'')), el_props = []\<rparr> None [El \<lparr>el_tag = (js ''p''),
       el_class = None, el_props = []\<rparr> None [Txt ([0xA9] @ js '' ''),
       Txt (js_int_to_string year), Txt (js '' Data Analyst & AI/ML Enthusiast '' @ [0x2022] @ js '' Built with React, Tailwind, Framer Motion, shadcn/ui & Recharts.'')],
       El \<lparr>el_tag = (js ''p''), el_class = (Some (js ''mt-2'')),
       el_props = []\<rparr> None [Txt (js ''Dark/Light mode '' @ [0x2022] @ js '' Smooth scroll '' @ [0x2022] @ js '' Responsive '' @ [0x2022] @ js '' Glassmorphism accents'')]]]"

text \<open>\<open>Particles\<close>: forty spans keyed by their index, and the style sheet.\<close>

definition particle :: "nat \<Rightarrow> node" where
  "particle i =
     tag_el (js ''span'') (Some (js ''absolute h-1 w-1 rounded-full bg-foreground/20 animate-[float_12s_ease-in-out_infinite]''))
       (Some (js_int_to_string (int i))) []"

definition particles :: node where
  "particles =
     html_div (js ''absolute inset-0 -z-10 overflow-hidden'')
       [Frag (map particle [0..<40]), tag_el (js ''style'') None None [Txt float_keyframes]]"

text \<open>The page: \<open><TooltipProvider><div \<dots>>\<dots></div></TooltipProvider>\<close>.\<close>

definition portfolio_view ::
  "bool \<Rightarrow> jsstr \<Rightarrow> jsstr \<Rightarrow> project list \<Rightarrow> certification list \<Rightarrow> int \<Rightarrow> node" where
  "portfolio_view dark query certQuery ps cs year =
     TooltipProvider
       [html_div (js ''relative min-h-screen scroll-smooth bg-background text-foreground antialiased'')
          [animated_gradient, particles, nav_header dark, hero_section, about_section, education_section,
           experience_section, skills_section, projects_section query ps,
           certifications_section certQuery cs, contact_section, footer_section year]]"

subsection \<open>Reading the page\<close>

text \<open>The elements of a tree in document order.\<close>

fun elems :: "node \<Rightarrow> element list" where
  "elems (Txt s) = []"
| "elems (El e k cs) = e # concat (map elems cs)"
| "elems (Frag cs) = concat (map elems cs)"

definition prop_of :: "element \<Rightarrow> jsstr \<Rightarrow> jsstr option" where
  "prop_of e k = map_of (el_props e) k"

definition anchors :: "node \<Rightarrow> element list" where
  "anchors n = filter (\<lambda>e. el_tag e = js ''a'') (elems n)"

definition ids_of :: "node \<Rightarrow> jsstr list" where
  "ids_of n = List.map_filter (\<lambda>e. prop_of e (js ''id'')) (elems n)"

text \<open>
  A link inside the page resolves: its fragment \<open>#id\<close> names an element of the page,
  or is empty, which scrolls to the top of the document.
\<close>

definition fragment_ok :: "jsstr list \<Rightarrow> element \<Rightarrow> bool" where
  "fragment_ok ids e =
     (case prop_of e (js ''href'') of
        None \<Rightarrow> True
      | Some h \<Rightarrow> (if take 1 h = js ''#'' then drop 1 h = [] \<or> drop 1 h \<in> set ids else True))"

text \<open>A link that opens a new browsing context does not hand it the opener.\<close>

definition opens_safely :: "element \<Rightarrow> bool" where
  "opens_safely e =
     (if prop_of e (js ''target'') = Some (js ''_blank'') then prop_of e (js ''rel'') = Some (js ''noreferrer'')
      else True)"

definition switches :: "node \<Rightarrow> element list" where
  "switches n = filter (\<lambda>e. el_tag e = js ''input'' \<and> prop_of e (js ''type'') = Some (js ''checkbox'')) (elems n)"

definition form_controls :: "node \<Rightarrow> element list" where
  "form_controls n = filter (\<lambda>e. el_tag e = js ''input'' \<or> el_tag e = js ''textarea'') (elems n)"

subsection \<open>Lemmas: reading trees\<close>

lemmas markup_defs = animated_gradient_def particles_def nav_header_def hero_section_def about_section_def
  education_section_def experience_section_def skills_section_def projects_section_def
  certifications_section_def contact_section_def contact_form_def footer_section_def
  node_defs Section_def SectionTitle_def timeline_chart_def Switch_def switch_element_def TooltipProvider_def
  section_element_def button_def merge_props_def input_def textarea_def field_def

lemma map_filter_concat: "List.map_filter f (concat xss) = concat (map (List.map_filter f) xss)"
  by (induction xss) (simp_all add: map_filter_def)

lemma filter_elems_El [simp]:
  "filter P (elems (El e k cs)) = (if P e then [e] else []) @ concat (map (\<lambda>c. filter P (elems c)) cs)"
  by (simp add: filter_concat comp_def)

lemma filter_elems_Frag [simp]:
  "filter P (elems (Frag cs)) = concat (map (\<lambda>c. filter P (elems c)) cs)"
  by (simp add: filter_concat comp_def)

lemma anchors_simps [simp]:
  "anchors (Txt s) = []"
  "anchors (El e k cs) = (if el_tag e = js ''a'' then [e] else []) @ concat (map anchors cs)"
  "anchors (Frag cs) = concat (map anchors cs)"
  by (simp_all add: anchors_def [abs_def] filter_concat comp_def)

lemma switches_simps [simp]:
  "switches (Txt s) = []"
  "switches (El e k cs) =
     (if el_tag e = js ''input'' \<and> prop_of e (js ''type'') = Some (js ''checkbox'') then [e] else []) @
     concat (map switches cs)"
  "switches (Frag cs) = concat (map switches cs)"
  by (simp_all add: switches_def [abs_def] filter_concat comp_def)

lemma ids_of_simps [simp]:
  "ids_of (Txt s) = []"
  "ids_of (El e k cs) = (case prop_of e (js ''id'') of None \<Rightarrow> [] | Some i \<Rightarrow> [i]) @ concat (map ids_of cs)"
  "ids_of (Frag cs) = concat (map ids_of cs)"
  by (simp_all add: ids_of_def [abs_def] map_filter_concat comp_def split: option.split)

subsection \<open>Lemmas: the lists of the page\<close>

lemma prop_of_project_anchor [simp]:
  "prop_of (project_anchor p) (js ''href'') = Some (link p)"
  "prop_of (project_anchor p) (js ''target'') = Some (js ''_blank'')"
  "prop_of (project_anchor p) (js ''rel'') = Some (js ''noreferrer'')"
  "el_tag (project_anchor p) = js ''a''"
  by (simp_all add: project_anchor_def button_def merge_props_def prop_of_def)

lemma el_props_project_anchor [simp]:
  "el_props (project_anchor p) =
     [(js ''size'', js ''sm''), (js ''variant'', js ''secondary''), (js ''href'', link p),
      (js ''target'', js ''_blank''), (js ''rel'', js ''noreferrer'')]"
  by (simp add: project_anchor_def button_def merge_props_def)

lemma project_card_reads [simp]:
  "anchors (project_card p) = [project_anchor p]"
  "ids_of (project_card p) = []"
  "switches (project_card p) = []"
  by (simp_all add: project_card_def project_link_def node_defs prop_of_def project_anchor_def button_def
      merge_props_def)

lemma cert_card_reads [simp]:
  "anchors (cert_card ci) = []"
  "ids_of (cert_card ci) = []"
  "switches (cert_card ci) = []"
  by (cases ci; simp add: cert_card_def node_defs prop_of_def)+

lemma grid_reads [simp]:
  "anchors (project_grid ps) = map project_anchor ps"
  "ids_of (project_grid ps) = []"
  "switches (project_grid ps) = []"
  "anchors (cert_row cs) = []"
  "ids_of (cert_row cs) = []"
  "switches (cert_row cs) = []"
  by (simp_all add: project_grid_def cert_row_def comp_def)

lemma particle_reads [simp]:
  "anchors (particle i) = []"
  "ids_of (particle i) = []"
  "switches (particle i) = []"
  by (simp_all add: particle_def node_defs prop_of_def)

lemma skill_card_reads [simp]:
  "anchors (skill_card gi) = []"
  "ids_of (skill_card gi) = []"
  "switches (skill_card gi) = []"
  by (cases gi; simp add: skill_card_def skill_badge_def node_defs prop_of_def comp_def)+

lemma skills_grid_reads [simp]:
  "anchors skills_grid = []"
  "ids_of skills_grid = []"
  "switches skills_grid = []"
  by (simp_all add: skills_grid_def comp_def)

lemma nat_key_inj: "js_int_to_string (int i) = js_int_to_string (int j) \<Longrightarrow> i = j"
  by (simp add: js_int_to_string_def nat_digits_inj)

lemma particles_keys_ok: "keys_ok particles"
proof -
  have "distinct (map (\<lambda>i. Some (js_int_to_string (int i))) [0..<40])"
    by (auto simp: distinct_map inj_on_def dest: nat_key_inj)
  then show ?thesis
    by (simp add: particles_def particle_def node_defs comp_def list_all_iff)
qed

lemmas page_defs = portfolio_view_def markup_defs nav_button_def nav_link_def brand_link_def nav_items_def
  prop_of_def

lemma page_ids: "ids_of (portfolio_view d q cq ps cs y) = section_ids"
  by (simp add: page_defs section_ids_def comp_def)

lemma page_anchors_ok:
  assumes "list_all (\<lambda>p. link p = js ''#'') ps"
  shows "list_all (fragment_ok section_ids) (anchors (portfolio_view d q cq ps cs y)) \<and>
         list_all opens_safely (anchors (portfolio_view d q cq ps cs y))"
  using assms by (auto simp: page_defs comp_def section_ids_def fragment_ok_def opens_safely_def list_all_iff)

lemma page_switches: "switches (portfolio_view d q cq ps cs y) = [switch_element d, switch_element d]"
  by (simp add: page_defs comp_def)

lemma page_keys_ok:
  "keys_ok (project_grid ps) \<Longrightarrow> keys_ok (cert_row cs) \<Longrightarrow> keys_ok (portfolio_view d q cq ps cs y)"
  using particles_keys_ok skills_grid_keys_ok
  by (simp add: page_defs comp_def del: particles_def)

lemma projects_links_hash: "list_all (\<lambda>p. link p = js ''#'') projects"
  by (simp add: projects_def)

lemma contact_form_reads:
  "form_controls contact_form =
     [input [(js ''name'', js ''name''), (js ''placeholder'', js ''Name''), (js ''required'', [])] None,
      input [(js ''name'', js ''email''), (js ''type'', js ''email''), (js ''placeholder'', js ''Email''),
             (js ''required'', [])] None,
      textarea [(js ''name'', js ''message''), (js ''placeholder'', js ''Message''), (js ''required'', [])]
        (Some (js ''min-h-[120px]''))]"
  by (simp add: form_controls_def contact_form_def node_defs button_def merge_props_def input_def
      textarea_def field_def)

lemma contact_form_buttons:
  "filter (\<lambda>e. el_tag e = js ''button'') (elems contact_form) =
     [button False None (js ''inline-flex items-center gap-2'') [(js ''type'', js ''submit'')]]"
  by (simp add: contact_form_def node_defs button_def merge_props_def input_def textarea_def field_def)

subsection \<open>Properties\<close>

text \<open>
  C21. Every link of the page works, whatever the queries and the year: the ids of the
  page are the eight section ids, in page order; every fragment link (\<open>#id\<close>) names one
  of them or is \<open>#\<close>, the top of the page; and every link that opens a new tab carries
  \<open>rel="noreferrer"\<close>, so the opened page gets no handle on the portfolio.
\<close>

theorem page_links_resolve:
  "ids_of (portfolio_view d q cq (filtered_projects q projects) cs y) = section_ids \<and>
   list_all (fragment_ok section_ids) (anchors (portfolio_view d q cq (filtered_projects q projects) cs y)) \<and>
   list_all opens_safely (anchors (portfolio_view d q cq (filtered_projects q projects) cs y))"
proof -
  have "list_all (\<lambda>p. link p = js ''#'') (filtered_projects q projects)"
    unfolding filtered_projects_def by (rule list_all_filter [OF projects_links_hash])
  then show ?thesis
    by (simp add: page_ids page_anchors_ok)
qed

end
