(* ===== verification/ContactForm.thy ===== *)
theory ContactForm
  imports Markup UriDecode
begin

text \<open>
  The submit handler of the contact form as the browser runs it (lines 588--600):
  \<open>new FormData(form)\<close> builds the entry list of the form's controls, \<open>data.get\<close>
  reads the three fields by name, and the template literals and \<open>encodeURIComponent\<close>
  of \<open>contact_submit\<close> build the link. The entry list holds scalar value strings
  (USVStrings): a lone surrogate in a control's value arrives as U+FFFD, so the
  encoder's \<open>URIError\<close> cannot be reached from the page. The values of the controls
  are a function from their position in tree order to their current (sanitised) value.
\<close>

subsection \<open>\<open>FormData\<close>\<close>

text \<open>
  Conversion to a scalar value string (WebIDL \<open>USVString\<close>): every surrogate that is
  not part of a pair becomes U+FFFD.
\<close>

fun to_usv :: "jsstr \<Rightarrow> jsstr" where
  "to_usv [] = []"
| "to_usv (c # cs) =
     (if is_high_surrogate c then
        (case cs of
           [] \<Rightarrow> [0xFFFD]
         | d # ds \<Rightarrow> if is_low_surrogate d then c # d # to_usv ds else 0xFFFD # to_usv cs)
      else if is_low_surrogate c then 0xFFFD # to_usv cs
      else c # to_usv cs)"

text \<open>
  Constructing the entry list: the submittable controls in tree order; one without a
  name, or with an empty one, is skipped; otherwise the entry is its name and its value,
  both converted to scalar value strings. The only \<open><button>\<close> of the form has no
  name and contributes nothing (\<open>contact_form_buttons\<close>), so the controls are the
  inputs and text areas.
\<close>

definition form_entries :: "node \<Rightarrow> (nat \<Rightarrow> jsstr) \<Rightarrow> (jsstr \<times> jsstr) list" where
  "form_entries f v =
     concat (map (\<lambda>(i, e). case prop_of e (js ''name'') of
                             None \<Rightarrow> []
                           | Some n \<Rightarrow> if n = [] then [] else [(to_usv n, to_usv (v i))])
                 (enumerate 0 (form_controls f)))"

text \<open>\<open>FormData.prototype.get\<close>: the value of the first entry with that name, or \<open>null\<close>.\<close>

definition form_data_get :: "(jsstr \<times> jsstr) list \<Rightarrow> jsstr \<Rightarrow> jsstr option" where
  "form_data_get d k = map_option snd (find (\<lambda>e. fst e = k) d)"

text \<open>A value in a template literal: \<open>null\<close> prints as \<open>"null"\<close>.\<close>

definition template_value :: "jsstr option \<Rightarrow> jsstr" where
  "template_value x = (case x of None \<Rightarrow> js ''null'' | Some s \<Rightarrow> s)"

subsection \<open>The handler\<close>

definition contact_on_submit :: "node \<Rightarrow> (nat \<Rightarrow> jsstr) \<Rightarrow> js_error + jsstr" where
  "contact_on_submit form v =
     (let data = form_entries form v in
      contact_submit (template_value (form_data_get data (js ''name'')))
        (template_value (form_data_get data (js ''email'')))
        (template_value (form_data_get data (js ''message''))))"

subsection \<open>Lemmas\<close>

lemma replacement_not_surrogate [simp]:
  "\<not> is_high_surrogate 0xFFFD" "\<not> is_low_surrogate 0xFFFD"
  by (simp_all add: is_high_surrogate_def is_low_surrogate_def)

lemma to_usv_well_formed: "utf16_well_formed (to_usv s)"
  by (induction s rule: to_usv.induct) (simp_all split: list.splits)

lemma utf16_well_formed_append:
  "utf16_well_formed a \<Longrightarrow> utf16_well_formed b \<Longrightarrow> utf16_well_formed (a @ b)"
  by (induction a rule: utf16_well_formed.induct) (auto split: if_splits list.splits)

lemma contact_body_well_formed:
  assumes "utf16_well_formed name" "utf16_well_formed email" "utf16_well_formed message"
  shows "utf16_well_formed (contact_body name email message)"
proof -
  have lit: "utf16_well_formed [0x0A, 0x0A, 0x2014, 0x20]" "utf16_well_formed (js '' ('')"
    "utf16_well_formed (js '')'')"
    by (simp_all add: js_def is_high_surrogate_def is_low_surrogate_def)
  show ?thesis
    unfolding contact_body_def
    by (intro utf16_well_formed_append assms lit)
qed

lemma form_entries_contact_form:
  "form_entries contact_form v =
     [(js ''name'', to_usv (v 0)), (js ''email'', to_usv (v 1)), (js ''message'', to_usv (v 2))]"
proof -
  have two: "Suc (Suc 0) = (2 :: nat)"
    by simp
  show ?thesis
    by (simp add: form_entries_def contact_form_reads prop_of_def input_def textarea_def field_def
        js_def is_high_surrogate_def is_low_surrogate_def two)
qed

subsection \<open>Properties\<close>

text \<open>
  C7. The handler reads exactly the three controls of the page's contact form: for
  every value the visitor gives them, submitting calls \<open>contact_submit\<close> with the
  values of the name input, the e-mail input and the message text area, in that order,
  as scalar value strings; none of the three reads is \<open>null\<close>.
\<close>

theorem contact_form_submits_fields:
  "contact_on_submit contact_form v = contact_submit (to_usv (v 0)) (to_usv (v 1)) (to_usv (v 2))"
  by (simp add: contact_on_submit_def form_entries_contact_form form_data_get_def template_value_def js_def)

text \<open>
  C11. Submitting the contact form never throws: whatever the visitor types into the
  three fields, lone surrogates included, the handler produces a \<open>mailto:\<close> link.
\<close>

theorem contact_form_submit_never_throws:
  "\<exists>h. contact_on_submit contact_form v = Inr h"
proof -
  have "utf16_well_formed (to_usv (v 0))"
    and "utf16_well_formed (contact_body (to_usv (v 0)) (to_usv (v 1)) (to_usv (v 2)))"
    by (simp_all add: to_usv_well_formed contact_body_well_formed)
  then have "\<exists>h. contact_submit (to_usv (v 0)) (to_usv (v 1)) (to_usv (v 2)) = Inr h"
    by (simp add: contact_submit_total_iff)
  then show ?thesis
    by (simp add: contact_on_submit_def form_entries_contact_form form_data_get_def template_value_def js_def)
qed

end
