(* ===== verification/Spec2Isabelle.thy ===== *)
theory Spec2Isabelle
  imports JsString Theme Filters Timeline Contact UriDecode UiPrimitives Navigation Render Markup ContactForm
begin

text \<open>
  A verification library for the portfolio page
  \<open>src/modern_data_analyst_ai_ml_portfolio_react_tailwind_framer_motion.jsx\<close> (the main
  file below) and the design-system primitives under \<open>src/src/components/ui/\<close>.

  \<^bold>\<open>The program.\<close> One React component, \<open>Portfolio\<close>, renders the whole page. Its state
  is the theme flag of the \<open>useDarkMode\<close> hook (lines 50--71), which is read from and
  written back to \<open>localStorage\<close> and the root element's class list, and the two search
  queries of the project and certification lists (lines 218--219), from which two
  \<open>useMemo\<close> filters (lines 221--240) derive the lists shown. The rest is the static data
  (lines 74--164), the career chart with its tooltip formatter (line 379), the navigation
  bar (lines 250--279) linking to eight sections, the contact form whose submit handler
  builds a \<open>mailto:\<close> URL with \<open>encodeURIComponent\<close> (lines 588--600), and markup built
  from the primitives \<open>Button\<close>, \<open>Card\<close>, \<open>Badge\<close>, \<open>Input\<close>, \<open>Textarea\<close> and \<open>Switch\<close>.

  \<^bold>\<open>Representation.\<close> JavaScript strings are lists of UTF-16 code units (\<open>16 word\<close>),
  written \<open>js ''...''\<close> for ASCII literals; errors a builtin can throw are the values of
  \<open>js_error\<close>, and a fallible operation returns \<open>js_error + 'a\<close> (\<open>Prelude\<close>). Objects
  of the source are records, the browser is a record of the parts the page touches, and
  React's behaviour (state cells, effects with dependency arrays, memos, commits) is
  written out as explicit state passing.

  \<^bold>\<open>Theories.\<close>
  \<^item> \<open>Prelude\<close>: the code-unit string type, \<open>js_error\<close>, literals and shared list lemmas.
  \<^item> \<open>JsString\<close>: the ECMAScript builtins the filters call: \<open>toLowerCase\<close>
    (\<open>lower_unit\<close>, \<open>js_toLowerCase\<close>), \<open>includes\<close> through the StringIndexOf loop
    (\<open>index_of_from\<close>, \<open>string_index_of\<close>, \<open>js_includes\<close>) and \<open>Number::toString\<close>
    on integers (\<open>js_int_to_string\<close>). Lemmas, used by the component proofs:
    \<open>includes\<close> is the sublist relation, decimal printing is injective and only produces
    digits and the minus sign, which \<open>toLowerCase\<close> fixes.
  \<^item> \<open>Theme\<close>: \<open>useDarkMode\<close> and \<open>switch.jsx\<close>. \<open>dark_mode_initial\<close> is the lazy
    initialiser, \<open>dark_mode_effect\<close> the effect, \<open>commit\<close> a React commit running the
    effect when its dependency changed, \<open>mount\<close>, \<open>set_enabled\<close>, \<open>switch_on_change\<close>,
    and \<open>theme_step\<close> over \<open>theme_event\<close>; \<open>theme_reachable\<close> is the set of states
    reachable from a mount. Lemmas: the invariant \<open>theme_inv\<close> holds in every reachable
    state (rule induction), storage and root class agree with the shown flag, the
    session round trip through \<open>localStorage\<close>, and the exact conditions under which the
    initialiser throws.
  \<^item> \<open>PortfolioData\<close>: the literal arrays \<open>skills\<close>, \<open>projects\<close>, \<open>certifications\<close>,
    \<open>timeline\<close>.
  \<^item> \<open>Filters\<close>: \<open>filtered_projects\<close>, \<open>filtered_certs\<close> and the React keys of the two
    lists, refined to one generic specification \<open>text_filter\<close> (a case-insensitive
    substring filter over extracted fields). Lemmas: refinement, narrowing, case
    insensitivity, the empty query, and distinct keys on the real data.
  \<^item> \<open>Timeline\<close>: the tooltip formatter with the JavaScript values on its path
    (\<open>jsval\<close>, \<open>js_or\<close>, \<open>array_at\<close>); it always shows the first label.
  \<^item> \<open>Contact\<close>: \<open>encode_uri_component\<close> (ECMAScript Encode: unreserved set, surrogate
    pairs, UTF-8 escapes, \<open>URIError\<close>), \<open>contact_subject\<close>, \<open>contact_body\<close>,
    \<open>contact_submit\<close> (lines 597--599: the template literals, the two encodings and
    the URL) and the query of the resulting URL. Lemmas: the output uses only unreserved
    characters and escapes, the URL's two parameters are exactly the encoded subject and
    body, and the encoder fails exactly on ill-formed UTF-16.
  \<^item> \<open>UriDecode\<close>: the reading side of the link, \<open>decodeURIComponent\<close>
    (\<open>decode_uri_component\<close>, with \<open>hex_escape\<close>, \<open>utf8_lead_len\<close>,
    \<open>cont_octets\<close>, \<open>utf8_decode\<close> and \<open>utf16_encode_cp\<close>), written from the
    ECMAScript \<open>Decode\<close> operation since no code of the repository decodes. Lemmas: the
    decoder inverts the encoder on every well-formed string (a lemma about the builtins),
    and, the property of the page, the mail client reads back from the link exactly the
    subject and body the handler composed.
  \<^item> \<open>ContactForm\<close>: the whole submit handler of lines 588--600 run on the page's own
    form: \<open>form_entries\<close> (the \<open>FormData\<close> entry list, with \<open>to_usv\<close>, the
    USVString conversion that replaces lone surrogates by U+FFFD), \<open>form_data_get\<close>,
    \<open>template_value\<close> (\<open>null\<close> in a template literal) and \<open>contact_on_submit\<close>.
    Lemmas: the handler passes the three controls of \<open>contact_form\<close> to
    \<open>contact_submit\<close> in order, and submitting never throws.
  \<^item> \<open>UiPrimitives\<close>: \<open>String.prototype.trim\<close> (\<open>js_trim\<close>), the class composition of
    \<open>Card\<close>, \<open>CardHeader\<close>, \<open>CardContent\<close>, \<open>CardTitle\<close>, \<open>Badge\<close>, \<open>Input\<close>,
    \<open>Textarea\<close>, and \<open>Button\<close> with \<open>asChild\<close> as \<open>React.cloneElement\<close> (\<open>merge_props\<close>).
    Lemma: the exact class of every card part and of the badge, for every caller class.
  \<^item> \<open>Navigation\<close>: \<open>Section\<close>, the section ids, the navigation links built through
    \<open>Button asChild\<close>; their properties are stated on the whole page in \<open>Markup\<close>.
  \<^item> \<open>Render\<close>: the rendered markup as a tree of \<open>node\<close>s (text, element with its
    React key and children, array child); the primitives as node builders (\<open>Card\<close>,
    \<open>Badge\<close>, the four \<open>tooltip.jsx\<close> components, \<open>Section\<close>, \<open>SectionTitle\<close>)
    and the three data-driven lists: \<open>skills_grid\<close>, \<open>project_grid\<close> (with
    \<open>project_card\<close> and its \<open>Button asChild\<close> link) and \<open>cert_row\<close>. \<open>keys_ok\<close> is
    React's key rule, \<open>texts\<close> the displayed text and \<open>texts_in\<close> the text inside
    selected elements (\<open>heading_or_tag\<close>: a card's title and its tag badges). Lemmas:
    every list satisfies the key rule for every query, and every project card shown
    displays the query in its title or a tag badge.
  \<^item> \<open>Markup\<close>: the whole tree \<open>Portfolio\<close> renders, \<open>portfolio_view\<close>, built from
    \<open>nav_header\<close> (with \<open>nav_button\<close> and the two \<open>Switch\<close>es), \<open>animated_gradient\<close>,
    \<open>particles\<close>, the eight sections (\<open>hero_section\<close> to \<open>contact_section\<close>, with
    \<open>contact_form\<close>) and \<open>footer_section\<close>, and read back by \<open>elems\<close>,
    \<open>anchors\<close>, \<open>ids_of\<close>, \<open>switches\<close> and \<open>form_controls\<close>. Lemmas: every link
    resolves and every new-tab link has \<open>rel="noreferrer"\<close>.
  \<^item> This theory: the page as a whole, \<open>page_state\<close> (theme hook, the two queries and
    the two memo caches), \<open>use_memo\<close>, \<open>page_render\<close>, \<open>page_commit\<close>, \<open>page_mount\<close>,
    \<open>page_step\<close> over \<open>page_event\<close> (theme events and the two \<open>onChange\<close> handlers of
    lines 501 and 553), and \<open>page_reachable\<close>. \<open>use_memo\<close> takes the dependency
    and the closure's value separately, so a memo keyed on the wrong query is expressible.
    Its lemmas show by rule induction that every commit shows the filters of the queries
    as last typed and that the theme invariant holds page-wide; \<open>page_tree\<close> is the
    whole page rendered from a state, whose keys, switches and theme agree in every
    reachable state.

  \<^bold>\<open>Termination and bounds.\<close> No definition needs fuel: every loop of the source is a
  structural recursion or the StringIndexOf loop, a \<open>function\<close> terminating by the
  measure \<open>length s + 1 - i\<close>; the URI decoder recurses on its remaining input. The
  liveness of the theme switch
  is stated with an explicit bound: three events (commit, click, commit) reach either
  value from any reachable state. Code units are 16-bit words, so surrogate arithmetic and
  the range of code points (below \<open>0x110000\<close>) are proved, not assumed; numbers the page
  prints are integers (years and levels), and the fractional years of the timeline are
  rationals.

  \<^bold>\<open>Not modelled.\<close> \<open>toLowerCase\<close> is modelled for Basic Latin and Latin-1 only (other
  code units are unchanged; the data and any query in that range are exact). Full Unicode
  case mapping is a table of the Unicode Character Database rather than code of the
  page, and it is not a homomorphism on code units (U+0130 lowers to two units, final
  sigma depends on context, supplementary letters are lowered as surrogate pairs), so
  the filter lemmas, which lower unit by unit, would not carry over to it. Styling,
  framer-motion animation (including \<open>AnimatePresence\<close>, which keeps a card filtered
  out mounted until its exit animation ends), the random inline styles of the particles
  (the particles themselves are modelled; each style is a \<open>Math.random()\<close> draw printed
  as an IEEE double, and since \<open>Particles\<close> is not memoised every render of
  \<open>Portfolio\<close>, a keystroke in a search box included, draws them anew), \<open>new Date()\<close> (the footer's year is a
  parameter), the markup of \<open>lucide-react\<close> icons (an \<open>svg\<close> naming the icon) and
  Recharts' chart rendering, including the \<open>labelFormatter\<close> that prints fractional
  years as IEEE doubles, are not modelled.
  The values of the form's controls are parameters: the browser's value sanitisation
  (newlines stripped from inputs, white space trimmed from the e-mail input) and its
  constraint validation of the \<open>required\<close> and \<open>type="email"\<close> controls, which decides
  whether the handler runs at all, are not modelled; the navigation to the \<open>mailto:\<close>
  URL is the handler's result. \<open>Storage.setItem\<close> fails only with \<open>SecurityError\<close>,
  together with reads: a \<open>QuotaExceededError\<close> of a readable but full storage is not
  modelled (the hook writes five code units). The server-side branch of the
  initialiser (\<open>typeof window === "undefined"\<close>) is the \<open>None\<close> browser.
\<close>

section \<open>The page: theme, queries and memoised lists\<close>

text \<open>
  The state of \<open>Portfolio\<close>: the dark-mode hook, the two query cells and the caches of
  the two \<open>useMemo\<close> calls, each the dependency it was computed for and its value.
\<close>

record page_state =
  hook :: hook_state
  query :: jsstr
  cert_query :: jsstr
  proj_memo :: "jsstr \<times> project list"
  cert_memo :: "jsstr \<times> certification list"

text \<open>
  \<open>useMemo(() => v, [deps])\<close>: the cached pair while the dependency is unchanged,
  otherwise the new dependency with the value \<open>v\<close> the closure computes in this
  render. The closure and the dependency array are separate arguments, as in the source.
\<close>

definition use_memo :: "'d \<Rightarrow> 'v \<Rightarrow> 'd \<times> 'v \<Rightarrow> 'd \<times> 'v" where
  "use_memo deps v cache = (if fst cache = deps then cache else (deps, v))"

text \<open>A render recomputes both memos against the current queries.\<close>

definition page_render :: "page_state \<Rightarrow> page_state" where
  "page_render s =
     s\<lparr>proj_memo := use_memo (query s) (filtered_projects (query s) projects) (proj_memo s),
       cert_memo := use_memo (cert_query s) (filtered_certs (cert_query s) certifications) (cert_memo s)\<rparr>"

definition page_commit :: "page_state \<Rightarrow> js_error + page_state" where
  "page_commit s = map_sum id (\<lambda>h. (page_render s)\<lparr>hook := h\<rparr>) (commit (hook s))"

definition page_mount :: "browser \<Rightarrow> js_error + page_state" where
  "page_mount b =
     (case dark_mode_initial (Some b) of
        Inl e \<Rightarrow> Inl e
      | Inr v \<Rightarrow> page_commit
          \<lparr>hook = \<lparr>enabled = v, effect_deps = None, rendered = v, page = b\<rparr>, query = [], cert_query = [],
           proj_memo = ([], filtered_projects [] projects),
           cert_memo = ([], filtered_certs [] certifications)\<rparr>)"

text \<open>
  Events: those of the theme hook, with \<open>Commit\<close> now committing the whole page, and
  the two \<open>onChange\<close> handlers \<open>setQuery(e.target.value)\<close> and
  \<open>setCertQuery(e.target.value)\<close>.
\<close>

datatype page_event =
    ThemeEvent theme_event
  | SetQuery jsstr
  | SetCertQuery jsstr

fun page_step :: "page_state \<Rightarrow> page_event \<Rightarrow> js_error + page_state" where
  "page_step s (ThemeEvent Commit) = page_commit s"
| "page_step s (ThemeEvent e) = map_sum id (\<lambda>h. s\<lparr>hook := h\<rparr>) (theme_step (hook s) e)"
| "page_step s (SetQuery q) = Inr (s\<lparr>query := q\<rparr>)"
| "page_step s (SetCertQuery q) = Inr (s\<lparr>cert_query := q\<rparr>)"

inductive page_reachable :: "page_state \<Rightarrow> bool" where
  mounted: "page_mount b = Inr s \<Longrightarrow> page_reachable s"
| step: "page_reachable s \<Longrightarrow> page_step s e = Inr s' \<Longrightarrow> page_reachable s'"

text \<open>The page invariant: each cache holds the filter of its own dependency.\<close>

definition memo_coherent :: "page_state \<Rightarrow> bool" where
  "memo_coherent s \<longleftrightarrow>
     snd (proj_memo s) = filtered_projects (fst (proj_memo s)) projects \<and>
     snd (cert_memo s) = filtered_certs (fst (cert_memo s)) certifications"

definition page_inv :: "page_state \<Rightarrow> bool" where
  "page_inv s \<longleftrightarrow> memo_coherent s \<and> theme_inv (hook s)"

text \<open>
  The whole page as rendered from a state, in the year \<open>y\<close> of the footer: the switches
  show the flag of the last render, the search inputs the queries and the lists the
  values the memos hold.
\<close>

definition page_tree :: "page_state \<Rightarrow> int \<Rightarrow> node" where
  "page_tree s y =
     portfolio_view (rendered (hook s)) (fst (proj_memo s)) (fst (cert_memo s)) (snd (proj_memo s))
       (snd (cert_memo s)) y"

text \<open>A browser with nothing stored that prefers dark, and the page after mounting in it.\<close>

abbreviation demo_browser :: browser where
  "demo_browser \<equiv> \<lparr>local_storage = Map.empty, storage_allowed = True, root_classes = [],
                     media_prefers_dark = Some True\<rparr>"

abbreviation demo_page :: page_state where
  "demo_page \<equiv>
     \<lparr>hook = \<lparr>enabled = True, effect_deps = Some True, rendered = True,
        page = \<lparr>local_storage = [js ''theme'' \<mapsto> js ''dark''], storage_allowed = True,
                root_classes = [js ''dark''], media_prefers_dark = Some True\<rparr>\<rparr>,
      query = [], cert_query = [], proj_memo = ([], filtered_projects [] projects),
      cert_memo = ([], filtered_certs [] certifications)\<rparr>"

subsection \<open>Lemmas\<close>

lemma page_render_coherent:
  "memo_coherent s \<Longrightarrow> memo_coherent (page_render s) \<and>
     fst (proj_memo (page_render s)) = query s \<and> fst (cert_memo (page_render s)) = cert_query s"
  by (simp add: memo_coherent_def page_render_def use_memo_def)

lemma page_commit_Inr:
  "page_commit s = Inr s' \<longleftrightarrow> (\<exists>h. commit (hook s) = Inr h \<and> s' = (page_render s)\<lparr>hook := h\<rparr>)"
  by (cases "commit (hook s)") (auto simp: page_commit_def)

lemma page_commit_inv:
  assumes "memo_coherent s" "theme_inv (hook s)"
  shows "\<exists>s'. page_commit s = Inr s' \<and> page_inv s' \<and> fst (proj_memo s') = query s \<and>
           fst (cert_memo s') = cert_query s \<and> rendered (hook s') = enabled (hook s)"
proof -
  from assms(2) obtain h where "commit (hook s) = Inr h" "theme_inv h" "rendered h = enabled (hook s)"
    using theme_inv_commit by blast
  with page_render_coherent [OF assms(1)] show ?thesis
    by (simp add: page_commit_Inr page_inv_def memo_coherent_def page_render_def)
qed

lemma page_step_inv:
  assumes "page_inv s"
  shows "\<exists>s'. page_step s e = Inr s' \<and> page_inv s'"
proof (cases e)
  case (ThemeEvent te)
  show ?thesis
  proof (cases te)
    case Commit
    with ThemeEvent assms page_commit_inv [of s] show ?thesis
      by (auto simp: page_inv_def)
  next
    case (SetEnabled v)
    from assms obtain h where "theme_step (hook s) te = Inr h" "theme_inv h"
      using theme_step_inv page_inv_def by blast
    with ThemeEvent SetEnabled assms show ?thesis
      by (simp add: page_inv_def memo_coherent_def)
  next
    case SwitchClick
    from assms obtain h where "theme_step (hook s) te = Inr h" "theme_inv h"
      using theme_step_inv page_inv_def by blast
    with ThemeEvent SwitchClick assms show ?thesis
      by (simp add: page_inv_def memo_coherent_def)
  qed
next
  case (SetQuery q)
  with assms show ?thesis
    by (simp add: page_inv_def memo_coherent_def)
next
  case (SetCertQuery q)
  with assms show ?thesis
    by (simp add: page_inv_def memo_coherent_def)
qed

lemma page_mount_inv:
  assumes "page_mount b = Inr s"
  shows "page_inv s"
proof -
  from assms obtain v where init: "dark_mode_initial (Some b) = Inr v"
    and c: "page_commit \<lparr>hook = \<lparr>enabled = v, effect_deps = None, rendered = v, page = b\<rparr>,
              query = [], cert_query = [], proj_memo = ([], filtered_projects [] projects),
              cert_memo = ([], filtered_certs [] certifications)\<rparr> = Inr s"
    by (auto simp: page_mount_def split: sum.splits)
  from init have "storage_allowed b"
    by (rule dark_mode_initial_allowed)
  then obtain h where "commit \<lparr>enabled = v, effect_deps = None, rendered = v, page = b\<rparr> = Inr h"
    and "theme_inv h"
    using commit_inv [of "\<lparr>enabled = v, effect_deps = None, rendered = v, page = b\<rparr>"] by auto
  with c show ?thesis
    by (auto simp: page_commit_Inr page_inv_def memo_coherent_def page_render_def use_memo_def)
qed

lemma page_reachable_inv: "page_reachable s \<Longrightarrow> page_inv s"
proof (induction rule: page_reachable.induct)
  case (mounted b s)
  then show ?case by (rule page_mount_inv)
next
  case (step s e s')
  from step.IH obtain t where "page_step s e = Inr t" and "page_inv t"
    using page_step_inv by blast
  with step.hyps(2) show ?case
    by simp
qed

lemma page_demo_reachable: "page_reachable demo_page"
proof (rule page_reachable.mounted)
  show "page_mount demo_browser = Inr demo_page"
    by (simp add: page_mount_def dark_mode_initial_Some page_commit_def commit_def
                  dark_mode_effect_def storage_setItem_def class_add_def page_render_def use_memo_def)
qed

lemma page_demo_typed: "page_reachable (demo_page\<lparr>query := js ''sql''\<rparr>)"
  using page_reachable.step [OF page_demo_reachable, of "SetQuery (js ''sql'')"] by simp

text \<open>
  C18. Every render of a reachable page succeeds and shows, for both lists, the filter
  of the query as last typed, and the switches show the current theme flag: the
  memoised view is never stale.
\<close>

theorem page_render_fresh:
  assumes "page_reachable s"
  shows "\<exists>s'. page_step s (ThemeEvent Commit) = Inr s' \<and>
           snd (proj_memo s') = filtered_projects (query s) projects \<and>
           snd (cert_memo s') = filtered_certs (cert_query s) certifications \<and>
           rendered (hook s') = enabled (hook s)"
proof -
  from page_reachable_inv [OF assms] have "memo_coherent s" "theme_inv (hook s)"
    by (simp_all add: page_inv_def)
  from page_commit_inv [OF this] obtain s' where "page_commit s = Inr s'" "page_inv s'"
    "fst (proj_memo s') = query s" "fst (cert_memo s') = cert_query s"
    "rendered (hook s') = enabled (hook s)"
    by blast
  then show ?thesis
    by (auto simp: page_inv_def memo_coherent_def)
qed


theorem page_render_fresh_witness:
  "\<exists>s'. page_step (demo_page\<lparr>query := js ''sql''\<rparr>) (ThemeEvent Commit) = Inr s' \<and>
     snd (proj_memo s') = filtered_projects (js ''sql'') projects \<and>
     snd (cert_memo s') = filtered_certs [] certifications \<and> rendered (hook s')"
  using page_render_fresh [OF page_demo_typed] by simp

text \<open>
  C22. In every state the page can reach, the whole rendered page satisfies React's key
  rule (navigation links, particles, skills, projects and certifications), both theme
  switches show the flag of the last render, and storage and root class agree with
  that flag.
\<close>

theorem page_tree_consistent:
  assumes "page_reachable s"
  shows "keys_ok (page_tree s y) \<and>
         switches (page_tree s y) = [switch_element (rendered (hook s)), switch_element (rendered (hook s))] \<and>
         theme_consistent (rendered (hook s)) (page (hook s))"
proof -
  from page_reachable_inv [OF assms]
  have p: "snd (proj_memo s) = filtered_projects (fst (proj_memo s)) projects"
    and c: "snd (cert_memo s) = filtered_certs (fst (cert_memo s)) certifications"
    and t: "theme_inv (hook s)"
    by (simp_all add: page_inv_def memo_coherent_def)
  have "keys_ok (page_tree s y)"
    unfolding page_tree_def p c
    by (intro page_keys_ok filtered_project_grid_keys_ok filtered_cert_row_keys_ok)
  moreover from t have "theme_consistent (rendered (hook s)) (page (hook s))"
    by (simp add: theme_inv_def)
  ultimately show ?thesis
    by (simp add: page_tree_def page_switches)
qed

theorem page_tree_consistent_witness:
  "keys_ok (page_tree demo_page 2026) \<and>
   switches (page_tree demo_page 2026) = [switch_element True, switch_element True]"
  using page_tree_consistent [OF page_demo_reachable, of 2026] by simp

end
